theory Spec2Isabelle
  imports Complex_Main "HOL-Library.Monad_Syntax"
begin

section \<open>Data model of the display compositor\<close>

text \<open>
  The embedding follows \<^verbatim>\<open>src/ui/scenic/lib/flatland/engine/display_compositor.cc\<close>.
  Identifiers, config stamps and frame numbers are 64-bit unsigned integers in the source;
  they are only compared and stored, so they are natural numbers here. Where the source
  narrows to 32 bits the reduction modulo \<open>2 ^ 32\<close> is written out. A \<^verbatim>\<open>zx::event\<close> is
  the truth value of its \<^verbatim>\<open>ZX_EVENT_SIGNALED\<close> bit. Binary32 values (\<^verbatim>\<open>float\<close>) are
  real numbers: rounding is not modelled.
\<close>

type_synonym collection_id = nat
type_synonym image_id = nat
type_synonym display_id = nat
type_synonym layer_id = nat
type_synonym event_id = nat
type_synonym config_stamp = nat
type_synonym frame_number = nat
type_synonym zx_time = int
type_synonym callback_id = nat

datatype import_mode = RendererOnly | EnforceDisplayConstraints | AttemptDisplayConstraints

datatype buffer_collection_usage = kClientImage | kRenderTarget

text \<open>
  Modelled from the spec: \<^verbatim>\<open>allocation::kInvalidId\<close> and \<^verbatim>\<open>allocation::kInvalidImageId\<close>
  are declared in a header that is not part of the sources at hand. The spec requires
  \<open>id \<noteq> 0\<close> of a valid image and calls the invalid image identifier the sentinel of a
  solid-color rectangle; \<^verbatim>\<open>IsValidBufferImage\<close> compares the identifier with the literal 0.
\<close>

definition kInvalidId :: collection_id where
  "kInvalidId = 0"

definition kInvalidImageId :: image_id where
  "kInvalidImageId = 0"

subsection \<open>Pixel formats and image configurations\<close>

datatype pixel_format_type = BGRA32 | R8G8B8A8 | NV12 | I420 | OtherPixelFormatType nat

datatype format_modifier =
  FORMAT_MODIFIER_INTEL_I915_X_TILED
| FORMAT_MODIFIER_INTEL_I915_Y_TILED
| FORMAT_MODIFIER_INTEL_I915_YF_TILED
| OtherFormatModifier nat

record pixel_format =
  pf_type :: pixel_format_type
  has_format_modifier :: bool
  format_modifier_value :: format_modifier

datatype zx_pixel_format =
  ZX_PIXEL_FORMAT_NONE | ZX_PIXEL_FORMAT_ARGB_8888 | ZX_PIXEL_FORMAT_ABGR_8888
| ZX_PIXEL_FORMAT_NV12 | ZX_PIXEL_FORMAT_I420

record image_config =
  config_width :: nat
  config_height :: nat
  config_pixel_format :: zx_pixel_format
  config_type :: nat

datatype blend_mode = SRC | SRC_OVER

datatype alpha_mode = DISABLE | PREMULTIPLIED

datatype image_flip = FLIP_NONE | FLIP_LEFT_RIGHT | FLIP_UP_DOWN

datatype orientation = CCW_0_DEGREES | CCW_90_DEGREES | CCW_180_DEGREES | CCW_270_DEGREES

record image_metadata =
  collection_id :: collection_id
  image_identifier :: image_id
  vmo_index :: nat
  width :: nat
  height :: nat
  multiply_color :: "real \<times> real \<times> real \<times> real"
  blend_mode :: blend_mode
  flip :: image_flip

record image_rect =
  origin :: "real \<times> real"
  extent :: "real \<times> real"
  rect_orientation :: orientation

record render_data =
  rectangles :: "image_rect list"
  images :: "image_metadata list"
  display_id :: display_id

record display_info =
  dimensions :: "nat \<times> nat"
  formats :: "zx_pixel_format list"

subsection \<open>Events and per-display data\<close>

record frame_event_data =
  wait_event :: bool
  signal_event :: bool
  wait_id :: event_id
  signal_id :: event_id

record image_event_data =
  image_signal_event :: bool
  image_signal_id :: event_id

record display_engine_data =
  layers :: "layer_id list"
  render_targets :: "image_metadata list"
  protected_render_targets :: "image_metadata list"
  frame_event_datas :: "frame_event_data list"
  vmo_count :: nat
  curr_vmo :: nat

record apply_config_info =
  config_stamp :: config_stamp
  frame_number :: frame_number

subsection \<open>Collaborators: the calls they receive and the answers they give\<close>

text \<open>
  The display controller, the renderer, sysmem and the release-fence manager are outside
  the file. Each is a log of the calls made to it, in order, together with the answers it
  gives. \<^verbatim>\<open>SetLayerPrimaryPosition\<close> is logged with the rectangle and the image from which
  helpers outside the file compute the transform and the two frames.
\<close>

datatype dc_call =
  DcCheckConfig bool
| DcApplyConfig
| DcGetLatestAppliedConfigStamp
| DcSetDisplayLayers display_id "layer_id list"
| DcSetLayerPrimaryConfig layer_id image_config
| DcSetLayerPrimaryPosition layer_id image_rect image_metadata
| DcSetLayerPrimaryAlpha layer_id alpha_mode real
| DcSetLayerImage layer_id image_id event_id event_id
| DcSetLayerColorConfig layer_id zx_pixel_format "nat list"
| DcSetDisplayColorConversion display_id "real list" "real list" "real list"
| DcImportBufferCollection collection_id image_config
| DcReleaseBufferCollection collection_id
| DcImportImage2 image_config collection_id image_id nat
| DcReleaseImage image_id
| DcImportEvent event_id

datatype renderer_call =
  RnImportBufferCollection collection_id buffer_collection_usage
| RnReleaseBufferCollection collection_id buffer_collection_usage
| RnImportBufferImage image_metadata buffer_collection_usage
| RnReleaseBufferImage image_id
| RnRender image_metadata "image_rect list" "image_metadata list" event_id bool bool

datatype sysmem_call =
  SysDuplicateToken collection_id
| SysCloseDisplayToken collection_id
| SysConvertToAttachToken collection_id
| SysCreateBufferCollectionPtrWithEmptyConstraints collection_id
| SysCheckBuffersAllocated collection_id
| SysWaitForBuffersAllocated collection_id
| SysCloseBufferCollectionPtr collection_id

datatype rfm_call =
  RfmOnDirectScanoutFrame frame_number "event_id list" callback_id
| RfmOnGpuCompositedFrame frame_number "event_id list" callback_id
| RfmOnVsync frame_number zx_time

text \<open>
  A client token, with the answers sysmem gives on it: whether \<^verbatim>\<open>DuplicateSync\<close> succeeds,
  whether \<^verbatim>\<open>Close\<close> succeeds, whether \<^verbatim>\<open>ConvertToAttachToken\<close> succeeds, whether
  \<^verbatim>\<open>CreateBufferCollectionPtrWithEmptyConstraints\<close> succeeds, and what the observation
  pointer reports later.
\<close>

record buffer_collection_ptr =
  buffers_allocated :: bool
  allocated_pixel_format :: pixel_format

record buffer_collection_token =
  token_duplicate_ok :: bool
  token_close_ok :: bool
  token_attach_ok :: bool
  token_empty_constraints_ok :: bool
  token_collection :: buffer_collection_ptr

record color_conversion_data =
  coefficients :: "real list"
  preoffsets :: "real list"
  postoffsets :: "real list"

datatype cc_state =
  Idle | Dirty color_conversion_data | AppliedDirect color_conversion_data
| AppliedGPU color_conversion_data

text \<open>The part of the compositor that \<^verbatim>\<open>OnVsync\<close> reads and writes.\<close>

record vsync_state =
  pending_apply_configs :: "apply_config_info list"
  last_presented_config_stamp :: "config_stamp option"
  release_fence_manager :: "rfm_call list"

text \<open>
  The compositor. \<^verbatim>\<open>kDisableDisplayComposition\<close> is a constant of a header outside the
  file, so it is a field. \<open>dc_check_result n\<close> is the answer of the display controller to
  the \<open>n\<close>-th \<^verbatim>\<open>CheckConfig(discard = false)\<close>, \<open>dc_stamp n\<close> the stamp it reports after
  the \<open>n\<close>-th \<^verbatim>\<open>ApplyConfig\<close>.
\<close>

record compositor = vsync_state +
  import_mode :: import_mode
  kDisableDisplayComposition :: bool
  display_buffer_collection_ptrs :: "collection_id \<rightharpoonup> buffer_collection_ptr"
  buffer_collection_supports_display :: "collection_id \<rightharpoonup> bool"
  buffer_collection_pixel_format :: "collection_id \<rightharpoonup> pixel_format"
  image_event_map :: "image_id \<rightharpoonup> image_event_data"
  pending_images_in_config :: "image_id list"
  display_engine_data_map :: "display_id \<rightharpoonup> display_engine_data"
  display_info_map :: "display_id \<rightharpoonup> display_info"
  cc_state_machine :: cc_state
  dc_log :: "dc_call list"
  dc_check_result :: "nat \<Rightarrow> bool"
  dc_checks :: nat
  dc_stamp :: "nat \<Rightarrow> config_stamp"
  dc_applies :: nat
  dc_import_collection_ok :: "collection_id \<Rightarrow> bool"
  dc_import_image_ok :: "image_id \<Rightarrow> bool"
  dc_next_event_id :: event_id
  renderer_log :: "renderer_call list"
  renderer_import_collection_ok :: "collection_id \<Rightarrow> bool"
  renderer_import_image_ok :: "image_id \<Rightarrow> bool"
  renderer_requires_protected :: "image_metadata list \<Rightarrow> bool"
  sysmem_log :: "sysmem_call list"

section \<open>OnVsync\<close>

text \<open>\<^verbatim>\<open>std::find_if\<close>: the position of the first element that satisfies the predicate.\<close>

fun find_if :: "('a \<Rightarrow> bool) \<Rightarrow> 'a list \<Rightarrow> nat option" where
  "find_if P [] = None"
| "find_if P (x # xs) =
     (if P x then Some 0 else (case find_if P xs of None \<Rightarrow> None | Some n \<Rightarrow> Some (Suc n)))"

text \<open>
  The loop \<^verbatim>\<open>while (it != end) { OnVsync(it->frame_number, timestamp); it = erase(it); }\<close>
  with \<open>n\<close> the distance from \<^verbatim>\<open>begin()\<close> to \<^verbatim>\<open>end\<close>.
\<close>

fun drain :: "nat \<Rightarrow> zx_time \<Rightarrow> 'a vsync_state_scheme \<Rightarrow> 'a vsync_state_scheme" where
  "drain 0 timestamp s = s"
| "drain (Suc n) timestamp s =
     (case pending_apply_configs s of
        [] \<Rightarrow> s
      | info # rest \<Rightarrow>
          drain n timestamp
            (s\<lparr>release_fence_manager :=
                  release_fence_manager s @ [RfmOnVsync (frame_number info) timestamp],
                pending_apply_configs := rest\<rparr>))"

definition OnVsync :: "zx_time \<Rightarrow> config_stamp \<Rightarrow> 'a vsync_state_scheme \<Rightarrow> 'a vsync_state_scheme" where
  "OnVsync timestamp applied_config_stamp s =
     (if last_presented_config_stamp s = Some applied_config_stamp then s
      else
        (case find_if (\<lambda>info. config_stamp info = applied_config_stamp)
                (pending_apply_configs s) of
           None \<Rightarrow> s
         | Some k \<Rightarrow>
             (drain (Suc k) timestamp s)
               \<lparr>last_presented_config_stamp := Some applied_config_stamp\<rparr>))"

section \<open>Helpers of the anonymous namespace\<close>

text \<open>\<^verbatim>\<open>FX_CHECK(false)\<close> on a pixel format that has no Zircon counterpart: no result.\<close>

definition BufferCollectionPixelFormatToZirconFormat :: "pixel_format \<Rightarrow> zx_pixel_format option" where
  "BufferCollectionPixelFormatToZirconFormat pf =
     (case pf_type pf of
        BGRA32 \<Rightarrow> Some ZX_PIXEL_FORMAT_ARGB_8888
      | R8G8B8A8 \<Rightarrow> Some ZX_PIXEL_FORMAT_ABGR_8888
      | NV12 \<Rightarrow> Some ZX_PIXEL_FORMAT_NV12
      | I420 \<Rightarrow> Some ZX_PIXEL_FORMAT_I420
      | OtherPixelFormatType _ \<Rightarrow> None)"

definition TYPE_SIMPLE :: nat where
  "TYPE_SIMPLE = 0"

definition BufferCollectionPixelFormatToImageType :: "pixel_format \<Rightarrow> nat" where
  "BufferCollectionPixelFormatToImageType pf =
     (if has_format_modifier pf then
        (case format_modifier_value pf of
           FORMAT_MODIFIER_INTEL_I915_X_TILED \<Rightarrow> 1
         | FORMAT_MODIFIER_INTEL_I915_Y_TILED \<Rightarrow> 2
         | FORMAT_MODIFIER_INTEL_I915_YF_TILED \<Rightarrow> 3
         | OtherFormatModifier _ \<Rightarrow> TYPE_SIMPLE)
      else TYPE_SIMPLE)"

definition GetAlphaMode :: "blend_mode \<Rightarrow> alpha_mode" where
  "GetAlphaMode b = (case b of SRC \<Rightarrow> DISABLE | SRC_OVER \<Rightarrow> PREMULTIPLIED)"

definition IsValidBufferImage :: "image_metadata \<Rightarrow> bool" where
  "IsValidBufferImage metadata =
     (if image_identifier metadata = 0 then False
      else if collection_id metadata = kInvalidId then False
      else if width metadata = 0 \<or> height metadata = 0 then False
      else True)"

definition IsYUV :: "pixel_format \<Rightarrow> bool" where
  "IsYUV format = (pf_type format = NV12 \<or> pf_type format = I420)"

definition sysmem_call :: "sysmem_call \<Rightarrow> compositor \<Rightarrow> compositor" where
  "sysmem_call c s = s\<lparr>sysmem_log := sysmem_log s @ [c]\<rparr>"

definition renderer_call :: "renderer_call \<Rightarrow> compositor \<Rightarrow> compositor" where
  "renderer_call c s = s\<lparr>renderer_log := renderer_log s @ [c]\<rparr>"

definition display_controller_call :: "dc_call \<Rightarrow> compositor \<Rightarrow> compositor" where
  "display_controller_call c s = s\<lparr>dc_log := dc_log s @ [c]\<rparr>"

definition DetermineDisplaySupportFor ::
  "collection_id \<Rightarrow> buffer_collection_ptr \<Rightarrow> compositor \<Rightarrow> pixel_format option \<times> compositor" where
  "DetermineDisplaySupportFor collection token s =
     (let s1 = sysmem_call (SysCheckBuffersAllocated collection) s in
      if \<not> buffers_allocated token then (None, s1)
      else
        let s2 = sysmem_call (SysCloseBufferCollectionPtr collection)
                   (sysmem_call (SysWaitForBuffersAllocated collection) s1) in
        if IsYUV (allocated_pixel_format token) then (None, s2)
        else (Some (allocated_pixel_format token), s2))"

section \<open>The color-conversion state machine\<close>

text \<open>
  Modelled from the spec: the class \<^verbatim>\<open>ColorConversionStateMachine\<close> and the constants
  \<^verbatim>\<open>kDefaultColorConversionCoefficients\<close> and \<^verbatim>\<open>kDefaultColorConversionOffsets\<close> are
  outside the file. The spec gives the states Idle, Dirty, AppliedDirect and AppliedGPU:
  data is returned for application only when Dirty; a successful direct apply moves Dirty
  to AppliedDirect; the GPU path must clear the display iff a direct apply left a
  non-identity conversion on it, and marks the display cleared afterwards.
\<close>

definition kDefaultColorConversionCoefficients :: "real list" where
  "kDefaultColorConversionCoefficients = [1, 0, 0, 0, 1, 0, 0, 0, 1]"

definition kDefaultColorConversionOffsets :: "real list" where
  "kDefaultColorConversionOffsets = [0, 0, 0]"

fun GetDataToApply :: "cc_state \<Rightarrow> color_conversion_data option" where
  "GetDataToApply (Dirty cc) = Some cc"
| "GetDataToApply _ = None"

fun SetApplyConfigSucceeded :: "cc_state \<Rightarrow> cc_state" where
  "SetApplyConfigSucceeded (Dirty cc) = AppliedDirect cc"
| "SetApplyConfigSucceeded st = st"

fun GpuRequiresDisplayClearing :: "cc_state \<Rightarrow> bool" where
  "GpuRequiresDisplayClearing (AppliedDirect cc) =
     (\<not> (coefficients cc = kDefaultColorConversionCoefficients
         \<and> preoffsets cc = kDefaultColorConversionOffsets
         \<and> postoffsets cc = kDefaultColorConversionOffsets))"
| "GpuRequiresDisplayClearing _ = False"

fun DisplayCleared :: "cc_state \<Rightarrow> cc_state" where
  "DisplayCleared (AppliedDirect cc) = AppliedGPU cc"
| "DisplayCleared st = st"

section \<open>Configuration round-trips to the display controller\<close>

definition CheckConfig :: "compositor \<Rightarrow> bool \<times> compositor" where
  "CheckConfig s =
     (dc_check_result s (dc_checks s),
      (display_controller_call (DcCheckConfig False) s)\<lparr>dc_checks := Suc (dc_checks s)\<rparr>)"

definition DiscardConfig :: "compositor \<Rightarrow> compositor" where
  "DiscardConfig s =
     display_controller_call (DcCheckConfig True) (s\<lparr>pending_images_in_config := []\<rparr>)"

definition ApplyConfig :: "compositor \<Rightarrow> config_stamp \<times> compositor" where
  "ApplyConfig s =
     (dc_stamp s (dc_applies s),
      (display_controller_call DcGetLatestAppliedConfigStamp
         (display_controller_call DcApplyConfig s))\<lparr>dc_applies := Suc (dc_applies s)\<rparr>)"

definition SetDisplayLayers :: "display_id \<Rightarrow> layer_id list \<Rightarrow> compositor \<Rightarrow> compositor" where
  "SetDisplayLayers display ls s = display_controller_call (DcSetDisplayLayers display ls) s"

text \<open>
  Modelled from the spec: \<^verbatim>\<open>scenic_impl::ImportEvent\<close> is outside the file; the spec's
  \<^verbatim>\<open>import_event(handle) \<rightarrow> id\<close> registers the event with the controller and yields its
  identifier. Identifiers are handed out in increasing order. The new event is
  pre-signaled, as \<^verbatim>\<open>NewImageEventData\<close> does.
\<close>

definition NewImageEventData :: "compositor \<Rightarrow> image_event_data \<times> compositor" where
  "NewImageEventData s =
     (\<lparr>image_signal_event = True, image_signal_id = dc_next_event_id s\<rparr>,
      (display_controller_call (DcImportEvent (dc_next_event_id s)) s)
        \<lparr>dc_next_event_id := Suc (dc_next_event_id s)\<rparr>)"

section \<open>Layer assignment\<close>

text \<open>
  \<^verbatim>\<open>static_cast<uint8_t>\<close> of a floating-point value truncates toward zero; the cast has
  no defined result when the truncated value is not in \<open>0..255\<close>.
\<close>

definition static_cast_uint8 :: "real \<Rightarrow> nat option" where
  "static_cast_uint8 x =
     (if - 1 < x \<and> x < 256 then Some (nat (if 0 \<le> x then \<lfloor>x\<rfloor> else \<lceil>x\<rceil>)) else None)"

text \<open>One component of \<open>col\<close> in \<^verbatim>\<open>ApplyLayerColor\<close>: \<^verbatim>\<open>static_cast<uint8_t>(255 * c)\<close>.\<close>

definition color_component :: "real \<Rightarrow> nat option" where
  "color_component c = static_cast_uint8 (255 * c)"

definition ApplyLayerColor ::
  "layer_id \<Rightarrow> image_rect \<Rightarrow> image_metadata \<Rightarrow> compositor \<Rightarrow> compositor option" where
  "ApplyLayerColor layer rectangle img s =
     (case multiply_color img of
        (c0, c1, c2, c3) \<Rightarrow>
          (case (color_component c0, color_component c1, color_component c2, color_component c3) of
             (Some b0, Some b1, Some b2, Some b3) \<Rightarrow>
               Some (display_controller_call
                       (DcSetLayerColorConfig layer ZX_PIXEL_FORMAT_ARGB_8888 [b0, b1, b2, b3]) s)
           | _ \<Rightarrow> None))"

text \<open>\<^verbatim>\<open>buffer_collection_pixel_format_.at\<close> throws on a collection without a format.\<close>

definition CreateImageConfig :: "image_metadata \<Rightarrow> compositor \<Rightarrow> image_config option" where
  "CreateImageConfig metadata s =
     (case buffer_collection_pixel_format s (collection_id metadata) of
        None \<Rightarrow> None
      | Some pf \<Rightarrow>
          (case BufferCollectionPixelFormatToZirconFormat pf of
             None \<Rightarrow> None
           | Some zf \<Rightarrow>
               Some \<lparr>config_width = width metadata, config_height = height metadata,
                     config_pixel_format = zf,
                     config_type = BufferCollectionPixelFormatToImageType pf\<rparr>))"

definition ApplyLayerImage ::
  "layer_id \<Rightarrow> image_rect \<Rightarrow> image_metadata \<Rightarrow> event_id \<Rightarrow> event_id \<Rightarrow> compositor
     \<Rightarrow> compositor option" where
  "ApplyLayerImage layer rectangle img wait signal s =
     (case buffer_collection_pixel_format s (collection_id img) of
        None \<Rightarrow> None
      | Some pf \<Rightarrow>
          (case CreateImageConfig img s of
             None \<Rightarrow> None
           | Some cfg \<Rightarrow>
               Some (display_controller_call (DcSetLayerImage layer (image_identifier img) wait signal)
                      (display_controller_call
                         (DcSetLayerPrimaryAlpha layer (GetAlphaMode (blend_mode img))
                            (snd (snd (snd (multiply_color img)))))
                         (display_controller_call (DcSetLayerPrimaryPosition layer rectangle img)
                            (display_controller_call (DcSetLayerPrimaryConfig layer cfg) s))))))"

text \<open>
  \<^verbatim>\<open>operator[]\<close> of \<^verbatim>\<open>std::unordered_map\<close> inserts a value-initialised entry for a key
  that is absent: \<^verbatim>\<open>false\<close> for the display-support flag, an event with no handle (which
  never tests as signaled) and identifier 0, a display of dimensions \<open>(0, 0)\<close>.
\<close>

definition supports_display_at :: "collection_id \<Rightarrow> compositor \<Rightarrow> bool \<times> compositor" where
  "supports_display_at collection s =
     (case buffer_collection_supports_display s collection of
        Some b \<Rightarrow> (b, s)
      | None \<Rightarrow>
          (False, s\<lparr>buffer_collection_supports_display :=
                       (buffer_collection_supports_display s)(collection \<mapsto> False)\<rparr>))"

definition image_event_at :: "image_id \<Rightarrow> compositor \<Rightarrow> image_event_data \<times> compositor" where
  "image_event_at img s =
     (case image_event_map s img of
        Some ev \<Rightarrow> (ev, s)
      | None \<Rightarrow>
          (\<lparr>image_signal_event = False, image_signal_id = 0\<rparr>,
           s\<lparr>image_event_map :=
                (image_event_map s)(img \<mapsto> \<lparr>image_signal_event = False, image_signal_id = 0\<rparr>)\<rparr>))"

definition display_info_at :: "display_id \<Rightarrow> compositor \<Rightarrow> display_info \<times> compositor" where
  "display_info_at display s =
     (case display_info_map s display of
        Some info \<Rightarrow> (info, s)
      | None \<Rightarrow>
          (\<lparr>dimensions = (0, 0), formats = []\<rparr>,
           s\<lparr>display_info_map :=
                (display_info_map s)(display \<mapsto> \<lparr>dimensions = (0, 0), formats = []\<rparr>)\<rparr>))"

text \<open>
  The first loop of \<^verbatim>\<open>SetRenderDataOnDisplay\<close>, over the images \<open>0 .. num_images - 1\<close>:
  an image without an event gets a new, pre-signaled one; an image whose event is not
  signaled ends the function with \<^verbatim>\<open>false\<close>; otherwise the image is recorded in
  \<^verbatim>\<open>pending_images_in_config_\<close>.
\<close>

fun record_pending_images :: "image_metadata list \<Rightarrow> compositor \<Rightarrow> bool \<times> compositor" where
  "record_pending_images [] s = (True, s)"
| "record_pending_images (img # rest) s =
     (case image_event_map s (image_identifier img) of
        None \<Rightarrow>
          (case NewImageEventData s of
             (ev, s1) \<Rightarrow>
               record_pending_images rest
                 (s1\<lparr>image_event_map := (image_event_map s1)(image_identifier img \<mapsto> ev),
                     pending_images_in_config :=
                       pending_images_in_config s1 @ [image_identifier img]\<rparr>))
      | Some ev \<Rightarrow>
          if \<not> image_signal_event ev then (False, s)
          else
            record_pending_images rest
              (s\<lparr>pending_images_in_config :=
                    pending_images_in_config s @ [image_identifier img]\<rparr>))"

text \<open>
  The second loop, from index \<open>i\<close>. Reading \<^verbatim>\<open>data.rectangles[i]\<close>, \<^verbatim>\<open>data.images[i]\<close> or
  \<^verbatim>\<open>layers[i]\<close> out of range has no defined result.
\<close>

definition at_index :: "'a list \<Rightarrow> nat \<Rightarrow> 'a option" where
  "at_index xs i = (if i < length xs then Some (xs ! i) else None)"

text \<open>
  \<^verbatim>\<open>static_cast<float>(n)\<close> for an unsigned integer \<open>n\<close>: the binary32 value nearest to \<open>n\<close>,
  ties to the even significand. A binary32 value has a significand of 24 bits, so \<open>n\<close> is
  cut to its 24 leading bits \<open>q\<close>, \<open>ulp_exponent n\<close> bits \<open>r\<close> are dropped, and \<open>q\<close> is rounded up
  when the dropped bits are more than half a unit, or half a unit with \<open>q\<close> odd. A display
  dimension is below \<open>2 ^ 32\<close>, far from the largest binary32 value.
\<close>

function ulp_exponent :: "nat \<Rightarrow> nat" where
  "ulp_exponent n = (if n < 2 ^ 24 then 0 else Suc (ulp_exponent (n div 2)))"
  by pat_completeness auto
termination
  by (relation "measure id") auto

declare ulp_exponent.simps [simp del]

definition static_cast_float :: "nat \<Rightarrow> real" where
  "static_cast_float n =
     (let e = ulp_exponent n; q = n div 2 ^ e; r = n mod 2 ^ e in
      real ((if 2 ^ e < 2 * r \<or> (2 * r = 2 ^ e \<and> odd q) then q + 1 else q) * 2 ^ e))"

definition covers_display :: "nat \<Rightarrow> image_rect \<Rightarrow> nat \<times> nat \<Rightarrow> bool" where
  "covers_display i rect display_size =
     (i = 0 \<and> fst (origin rect) = 0 \<and> snd (origin rect) = 0
      \<and> fst (extent rect) = static_cast_float (fst display_size)
      \<and> snd (extent rect) = static_cast_float (snd display_size))"

function assign_layers ::
  "nat \<Rightarrow> nat \<Rightarrow> render_data \<Rightarrow> layer_id list \<Rightarrow> compositor \<Rightarrow> (bool \<times> compositor) option" where
  "assign_layers i num_images data ls s =
     (if i < num_images then
        (case at_index (images data) i of
           None \<Rightarrow> None
         | Some img \<Rightarrow>
             if image_identifier img \<noteq> kInvalidImageId then
               (case supports_display_at (collection_id img) s of
                  (supported, s1) \<Rightarrow>
                    if supported then
                      (case (at_index ls i, at_index (rectangles data) i) of
                         (Some layer, Some rect) \<Rightarrow>
                           (case image_event_at (image_identifier img) s1 of
                              (ev, s2) \<Rightarrow>
                                (case ApplyLayerImage layer rect img 0 (image_signal_id ev) s2 of
                                   None \<Rightarrow> None
                                 | Some s3 \<Rightarrow> assign_layers (Suc i) num_images data ls s3))
                       | _ \<Rightarrow> None)
                    else Some (False, s1))
             else
               (case at_index (rectangles data) i of
                  None \<Rightarrow> None
                | Some rect \<Rightarrow>
                    (case display_info_at (display_id data) s of
                       (info, s1) \<Rightarrow>
                         if covers_display i rect (dimensions info) then
                           (case at_index ls i of
                              None \<Rightarrow> None
                            | Some layer \<Rightarrow>
                                (case ApplyLayerColor layer rect img s1 of
                                   None \<Rightarrow> None
                                 | Some s2 \<Rightarrow> assign_layers (Suc i) num_images data ls s2))
                         else Some (False, s1))))
      else Some (True, s))"
  by pat_completeness auto
termination
  by (relation "measure (\<lambda>(i, num_images, data, ls, s). num_images - i)") auto

declare assign_layers.simps [simp del]

text \<open>
  \<^verbatim>\<open>num_images\<close> is the size of \<^verbatim>\<open>data.images\<close> narrowed to 32 bits;
  \<^verbatim>\<open>display_engine_data_map_.at\<close> throws on a display that was never added.
\<close>

definition SetRenderDataOnDisplay :: "render_data \<Rightarrow> compositor \<Rightarrow> (bool \<times> compositor) option" where
  "SetRenderDataOnDisplay data s =
     (let num_images = length (images data) mod 2 ^ 32 in
      case display_engine_data_map s (display_id data) of
        None \<Rightarrow> None
      | Some engine_data \<Rightarrow>
          if length (layers engine_data) < num_images then Some (False, s)
          else
            (case record_pending_images (take num_images (images data)) s of
               (False, s1) \<Rightarrow> Some (False, s1)
             | (True, s1) \<Rightarrow>
                 assign_layers 0 num_images data (layers engine_data)
                   (SetDisplayLayers (display_id data) (take num_images (layers engine_data)) s1)))"

text \<open>The loop of \<^verbatim>\<open>SetRenderDatasOnDisplay\<close> over the displays of a frame.\<close>

fun set_render_datas :: "render_data list \<Rightarrow> compositor \<Rightarrow> (bool \<times> compositor) option" where
  "set_render_datas [] s = Some (True, s)"
| "set_render_datas (data # rest) s =
     (case SetRenderDataOnDisplay data s of
        None \<Rightarrow> None
      | Some (False, s1) \<Rightarrow> Some (False, s1)
      | Some (True, s1) \<Rightarrow>
          set_render_datas rest
            (case GetDataToApply (cc_state_machine s1) of
               None \<Rightarrow> s1
             | Some cc_data \<Rightarrow>
                 display_controller_call
                   (DcSetDisplayColorConversion (display_id data) (preoffsets cc_data)
                      (coefficients cc_data) (postoffsets cc_data)) s1))"

definition SetRenderDatasOnDisplay ::
  "render_data list \<Rightarrow> compositor \<Rightarrow> (bool \<times> compositor) option" where
  "SetRenderDatasOnDisplay render_data_list s =
     (if kDisableDisplayComposition s then Some (False, s)
      else set_render_datas render_data_list s)"

section \<open>GPU composition\<close>

text \<open>
  One iteration of the loop of \<^verbatim>\<open>PerformGpuComposition\<close>, in three parts. First, a color
  conversion that a direct-scanout frame left on the display is cleared.
\<close>

definition clear_past_cc_state :: "render_data \<Rightarrow> compositor \<Rightarrow> compositor" where
  "clear_past_cc_state data s =
     (if GpuRequiresDisplayClearing (cc_state_machine s)
      then (display_controller_call
              (DcSetDisplayColorConversion (display_id data)
                 kDefaultColorConversionOffsets kDefaultColorConversionCoefficients
                 kDefaultColorConversionOffsets) s)
             \<lparr>cc_state_machine := DisplayCleared (cc_state_machine s)\<rparr>
      else s)"

text \<open>
  Second, the cursor advances (it is a 32-bit unsigned integer), the two events of the
  slot are reset, and the renderer draws into the render target. The test of the signal
  event of the slot only logs. \<^verbatim>\<open>Render\<close> is logged with the wait fence it is given and
  with whether it also gets the render-finished fence.
\<close>

definition render_into_slot ::
  "bool \<Rightarrow> render_data \<Rightarrow> display_engine_data \<Rightarrow> nat \<Rightarrow> image_metadata \<Rightarrow> frame_event_data
     \<Rightarrow> compositor \<Rightarrow> compositor" where
  "render_into_slot is_final_display data engine_data slot render_target old_event_data s =
     (let event_data = old_event_data\<lparr>wait_event := False, signal_event := False\<rparr>;
          engine_data1 = engine_data
            \<lparr>curr_vmo := ((curr_vmo engine_data + 1) mod 2 ^ 32) mod vmo_count engine_data,
             frame_event_datas := (frame_event_datas engine_data)[slot := event_data]\<rparr>;
          apply_cc = (GetDataToApply (cc_state_machine s) \<noteq> None)
      in renderer_call
           (RnRender render_target (rectangles data) (images data)
              (wait_id event_data) is_final_display apply_cc)
           (s\<lparr>display_engine_data_map :=
                 (display_engine_data_map s)(display_id data \<mapsto> engine_data1)\<rparr>))"

text \<open>
  Third, layer 0 of the display gets the render target, and the configuration is checked.
  The \<^verbatim>\<open>FX_DCHECK\<close>s on the display and on the cursor guard reads that have no defined
  result otherwise.
\<close>

definition gpu_compose_display ::
  "bool \<Rightarrow> render_data \<Rightarrow> compositor \<Rightarrow> (bool \<times> compositor) option" where
  "gpu_compose_display is_final_display data s =
     (case display_engine_data_map s (display_id data) of
        None \<Rightarrow> None
      | Some engine_data \<Rightarrow>
          let s1 = clear_past_cc_state data s in
          if vmo_count engine_data = 0 then Some (False, s1)
          else
            let slot = curr_vmo engine_data;
                targets = (if renderer_requires_protected s1 (images data)
                           then protected_render_targets engine_data
                           else render_targets engine_data)
            in
            (case (at_index targets slot, at_index (frame_event_datas engine_data) slot,
                   at_index (layers engine_data) 0) of
               (Some render_target, Some old_event_data, Some layer) \<Rightarrow>
                 (case ApplyLayerImage layer
                         \<lparr>origin = (0, 0),
                          extent = (real (width render_target), real (height render_target)),
                          rect_orientation = CCW_0_DEGREES\<rparr>
                         render_target (wait_id old_event_data) (signal_id old_event_data)
                         (SetDisplayLayers (display_id data) [layer]
                            (render_into_slot is_final_display data engine_data slot
                               render_target old_event_data s1)) of
                    None \<Rightarrow> None
                  | Some s4 \<Rightarrow> Some (CheckConfig s4))
             | _ \<Rightarrow> None))"

fun gpu_compose_displays :: "render_data list \<Rightarrow> compositor \<Rightarrow> (bool \<times> compositor) option" where
  "gpu_compose_displays [] s = Some (True, s)"
| "gpu_compose_displays (data # rest) s =
     (case gpu_compose_display (rest = []) data s of
        None \<Rightarrow> None
      | Some (False, s1) \<Rightarrow> Some (False, s1)
      | Some (True, s1) \<Rightarrow> gpu_compose_displays rest s1)"

definition PerformGpuComposition ::
  "frame_number \<Rightarrow> zx_time \<Rightarrow> render_data list \<Rightarrow> event_id list \<Rightarrow> callback_id \<Rightarrow> compositor
     \<Rightarrow> (bool \<times> compositor) option" where
  "PerformGpuComposition frame presentation_time render_data_list release_fences callback s =
     (case gpu_compose_displays render_data_list s of
        None \<Rightarrow> None
      | Some (False, s1) \<Rightarrow> Some (False, s1)
      | Some (True, s1) \<Rightarrow>
          Some (True,
                s1\<lparr>release_fence_manager :=
                     release_fence_manager s1
                       @ [RfmOnGpuCompositedFrame frame release_fences callback]\<rparr>))"

section \<open>RenderFrame\<close>

text \<open>The loop that unsignals the events of the images of the configuration.\<close>

fun unsignal_image_events :: "image_id list \<Rightarrow> compositor \<Rightarrow> compositor" where
  "unsignal_image_events [] s = s"
| "unsignal_image_events (i # rest) s =
     (case image_event_at i s of
        (ev, s1) \<Rightarrow>
          unsignal_image_events rest
            (s1\<lparr>image_event_map :=
                  (image_event_map s1)(i \<mapsto> ev\<lparr>image_signal_event := False\<rparr>)\<rparr>))"

text \<open>
  \<^verbatim>\<open>fallback_to_gpu_composition\<close>: \<^verbatim>\<open>CheckConfig\<close> is only called when the first two
  disjuncts are false.
\<close>

definition fallback_to_gpu_composition :: "bool \<Rightarrow> compositor \<Rightarrow> bool \<times> compositor" where
  "fallback_to_gpu_composition hardware_failure s =
     (if hardware_failure \<or> kDisableDisplayComposition s then (True, s)
      else (case CheckConfig s of (ok, s1) \<Rightarrow> (\<not> ok, s1)))"

text \<open>The end of \<^verbatim>\<open>RenderFrame\<close>: apply the configuration and remember its stamp.\<close>

definition apply_and_enqueue :: "frame_number \<Rightarrow> compositor \<Rightarrow> compositor" where
  "apply_and_enqueue frame s =
     (case ApplyConfig s of
        (stamp, s1) \<Rightarrow>
          s1\<lparr>pending_apply_configs :=
               pending_apply_configs s1 @ [\<lparr>config_stamp = stamp, frame_number = frame\<rparr>]\<rparr>)"

definition RenderFrame ::
  "frame_number \<Rightarrow> zx_time \<Rightarrow> render_data list \<Rightarrow> event_id list \<Rightarrow> callback_id \<Rightarrow> compositor
     \<Rightarrow> compositor option" where
  "RenderFrame frame presentation_time render_data_list release_fences callback s =
     (case SetRenderDatasOnDisplay render_data_list (DiscardConfig s) of
        None \<Rightarrow> None
      | Some (hardware_ok, s1) \<Rightarrow>
          (case fallback_to_gpu_composition (\<not> hardware_ok) s1 of
             (True, s2) \<Rightarrow>
               (case PerformGpuComposition frame presentation_time render_data_list
                       release_fences callback (DiscardConfig s2) of
                  None \<Rightarrow> None
                | Some (False, s3) \<Rightarrow> Some s3
                | Some (True, s3) \<Rightarrow> Some (apply_and_enqueue frame s3))
           | (False, s2) \<Rightarrow>
               Some (apply_and_enqueue frame
                       ((unsignal_image_events (pending_images_in_config s2)
                           (s2\<lparr>cc_state_machine := SetApplyConfigSucceeded (cc_state_machine s2)\<rparr>))
                          \<lparr>release_fence_manager :=
                             release_fence_manager s2
                               @ [RfmOnDirectScanoutFrame frame release_fences callback]\<rparr>))))"

section \<open>Buffer collections and images\<close>

text \<open>
  The display leg of \<^verbatim>\<open>ImportBufferCollection\<close>, after the switch on the import mode:
  the observation pointer, then the import into the display controller.
\<close>

definition import_display_leg ::
  "collection_id \<Rightarrow> buffer_collection_token \<Rightarrow> compositor \<Rightarrow> bool \<times> compositor" where
  "import_display_leg collection token s =
     (let s1 = sysmem_call (SysCreateBufferCollectionPtrWithEmptyConstraints collection) s in
      if \<not> token_empty_constraints_ok token then (False, s1)
      else
        let s2 = display_controller_call
                   (DcImportBufferCollection collection
                      \<lparr>config_width = 0, config_height = 0,
                       config_pixel_format = ZX_PIXEL_FORMAT_NONE, config_type = 0\<rparr>)
                   (s1\<lparr>display_buffer_collection_ptrs :=
                         (display_buffer_collection_ptrs s1)(collection \<mapsto> token_collection token)\<rparr>)
        in (dc_import_collection_ok s2 collection, s2))"

definition ImportBufferCollection ::
  "collection_id \<Rightarrow> buffer_collection_token \<Rightarrow> buffer_collection_usage \<Rightarrow> (nat \<times> nat) option
     \<Rightarrow> compositor \<Rightarrow> bool \<times> compositor" where
  "ImportBufferCollection collection token usage size_hint s =
     (let s1 = sysmem_call (SysDuplicateToken collection) s in
      if \<not> token_duplicate_ok token then (False, s1)
      else
        let s2 = renderer_call (RnImportBufferCollection collection usage) s1 in
        if \<not> renderer_import_collection_ok s2 collection then (False, s2)
        else
          (case import_mode s2 of
             RendererOnly \<Rightarrow> (True, sysmem_call (SysCloseDisplayToken collection) s2)
           | EnforceDisplayConstraints \<Rightarrow> import_display_leg collection token s2
           | AttemptDisplayConstraints \<Rightarrow>
               (let s3 = sysmem_call (SysConvertToAttachToken collection) s2 in
                if token_attach_ok token then import_display_leg collection token s3
                else (False, s3))))"

definition ReleaseBufferCollection ::
  "collection_id \<Rightarrow> buffer_collection_usage \<Rightarrow> compositor \<Rightarrow> compositor" where
  "ReleaseBufferCollection collection usage s =
     (let s1 = renderer_call (RnReleaseBufferCollection collection usage)
                 (display_controller_call (DcReleaseBufferCollection collection) s)
      in s1\<lparr>display_buffer_collection_ptrs := (display_buffer_collection_ptrs s1)(collection := None),
            buffer_collection_supports_display :=
              (buffer_collection_supports_display s1)(collection := None)\<rparr>)"

text \<open>
  \<^verbatim>\<open>TakeDisplayBufferCollectionPtr\<close> followed by \<^verbatim>\<open>DetermineDisplaySupportFor\<close> and the two
  stores. Taking the pointer of a collection that has none has no defined result.
\<close>

definition determine_display_support :: "collection_id \<Rightarrow> compositor \<Rightarrow> compositor option" where
  "determine_display_support collection s =
     (case display_buffer_collection_ptrs s collection of
        None \<Rightarrow> None
      | Some token \<Rightarrow>
          (case DetermineDisplaySupportFor collection token
                  (s\<lparr>display_buffer_collection_ptrs :=
                       (display_buffer_collection_ptrs s)(collection := None)\<rparr>) of
             (None, s1) \<Rightarrow>
               Some (s1\<lparr>buffer_collection_supports_display :=
                          (buffer_collection_supports_display s1)(collection \<mapsto> False)\<rparr>)
           | (Some pf, s1) \<Rightarrow>
               Some (s1\<lparr>buffer_collection_supports_display :=
                          (buffer_collection_supports_display s1)(collection \<mapsto> True),
                        buffer_collection_pixel_format :=
                          (buffer_collection_pixel_format s1)(collection \<mapsto> pf)\<rparr>)))"

definition ImportBufferImage ::
  "image_metadata \<Rightarrow> buffer_collection_usage \<Rightarrow> compositor \<Rightarrow> (bool \<times> compositor) option" where
  "ImportBufferImage metadata usage s =
     (if \<not> IsValidBufferImage metadata then Some (False, s)
      else
        let s1 = renderer_call (RnImportBufferImage metadata usage) s in
        if \<not> renderer_import_image_ok s1 (image_identifier metadata) then Some (False, s1)
        else
          let collection = collection_id metadata;
              display_support_already_set = (buffer_collection_supports_display s1 collection \<noteq> None)
          in
          if import_mode s1 = RendererOnly
             \<and> (\<not> display_support_already_set
                \<or> buffer_collection_supports_display s1 collection = Some False)
          then Some (True, s1\<lparr>buffer_collection_supports_display :=
                                 (buffer_collection_supports_display s1)(collection \<mapsto> False)\<rparr>)
          else
            (case (if \<not> display_support_already_set then determine_display_support collection s1
                   else Some s1) of
               None \<Rightarrow> None
             | Some s2 \<Rightarrow>
                 if buffer_collection_supports_display s2 collection \<noteq> Some True then
                   (case import_mode s2 of
                      AttemptDisplayConstraints \<Rightarrow> Some (True, s2)
                    | EnforceDisplayConstraints \<Rightarrow> Some (False, s2)
                    | RendererOnly \<Rightarrow> Some (False, s2))
                 else
                   (case CreateImageConfig metadata s2 of
                      None \<Rightarrow> None
                    | Some cfg \<Rightarrow>
                        let s3 = display_controller_call
                                   (DcImportImage2 cfg collection (image_identifier metadata)
                                      (vmo_index metadata)) s2
                        in Some (dc_import_image_ok s3 (image_identifier metadata), s3))))"


section \<open>Observations on the logs\<close>





text \<open>
  The fields that direct-scanout planning leaves alone, with the number of
  \<^verbatim>\<open>ApplyConfig\<close> calls in the log of the display controller; and the fields that GPU
  composition leaves alone.
\<close>

definition planner_frame where
  "planner_frame s =
     (release_fence_manager s, pending_apply_configs s, last_presented_config_stamp s,
      import_mode s, kDisableDisplayComposition s, display_buffer_collection_ptrs s,
      buffer_collection_pixel_format s, display_engine_data_map s, cc_state_machine s,
      dc_check_result s, dc_checks s, dc_stamp s, dc_applies s, renderer_log s,
      renderer_requires_protected s, count_list (dc_log s) DcApplyConfig)"

definition gpu_frame where
  "gpu_frame s =
     (release_fence_manager s, pending_apply_configs s, last_presented_config_stamp s,
      import_mode s, kDisableDisplayComposition s, display_buffer_collection_ptrs s,
      buffer_collection_supports_display s, buffer_collection_pixel_format s,
      image_event_map s, pending_images_in_config s, display_info_map s,
      dc_check_result s, dc_stamp s, dc_applies s, dc_next_event_id s,
      renderer_requires_protected s, count_list (dc_log s) DcApplyConfig)"

text \<open>The dimensions that \<^verbatim>\<open>display_info_map_[display].dimensions\<close> reads.\<close>

definition display_dimensions :: "compositor \<Rightarrow> display_id \<Rightarrow> nat \<times> nat" where
  "display_dimensions s d =
     (case display_info_map s d of None \<Rightarrow> (0, 0) | Some info \<Rightarrow> dimensions info)"

text \<open>Every image event of the first state is in the second state as it was.\<close>

definition events_kept :: "compositor \<Rightarrow> compositor \<Rightarrow> bool" where
  "events_kept s s' \<longleftrightarrow>
     (\<forall>i ev. image_event_map s i = Some ev \<longrightarrow> image_event_map s' i = Some ev)"

text \<open>An image event of the second state is one of the first state, or is signaled.\<close>

definition events_new_signaled :: "compositor \<Rightarrow> compositor \<Rightarrow> bool" where
  "events_new_signaled s s' \<longleftrightarrow>
     (\<forall>i ev. image_event_map s' i = Some ev \<longrightarrow>
        image_event_map s i = Some ev \<or> image_signal_event ev)"

text \<open>
  The steps of which direct-scanout planning consists: a new event for an image that has
  none, the recording of an image whose event is signaled, and the calls that stage the
  layers. A layer gets an image that is not the sentinel, with the signal event of that
  image.
\<close>

inductive staging_step :: "compositor \<Rightarrow> compositor \<Rightarrow> bool" where
  new_event:
    "image_event_map s i = None \<Longrightarrow> NewImageEventData s = (ev, s1) \<Longrightarrow>
     staging_step s
       (s1\<lparr>image_event_map := (image_event_map s1)(i \<mapsto> ev),
           pending_images_in_config := pending_images_in_config s1 @ [i]\<rparr>)"
| recorded:
    "image_event_map s i = Some ev \<Longrightarrow> image_signal_event ev \<Longrightarrow>
     staging_step s (s\<lparr>pending_images_in_config := pending_images_in_config s @ [i]\<rparr>)"
| display_layers:
    "staging_step s (SetDisplayLayers d ls s)"
| supports:
    "supports_display_at c s = (b, s1) \<Longrightarrow> staging_step s s1"
| layer_image:
    "image_identifier img \<noteq> kInvalidImageId \<Longrightarrow>
     image_event_map s (image_identifier img) = Some ev \<Longrightarrow>
     ApplyLayerImage layer rect img 0 (image_signal_id ev) s = Some s1 \<Longrightarrow>
     staging_step s s1"
| display_info:
    "display_info_at d s = (info, s1) \<Longrightarrow> staging_step s s1"
| layer_color:
    "ApplyLayerColor layer rect img s = Some s1 \<Longrightarrow> staging_step s s1"
| color_conversion:
    "staging_step s (display_controller_call (DcSetDisplayColorConversion d pre co post) s)"

text \<open>
  The identifiers of the events that the display controller was given as the signal event
  of a layer image, and of the signal events of the render targets.
\<close>

fun call_signal_id :: "dc_call \<Rightarrow> event_id option" where
  "call_signal_id (DcSetLayerImage layer img wait signal) = Some signal"
| "call_signal_id _ = None"

definition attached_signal_ids :: "compositor \<Rightarrow> event_id set" where
  "attached_signal_ids s = {e. Some e \<in> set (map call_signal_id (dc_log s))}"

definition frame_signal_ids :: "compositor \<Rightarrow> event_id set" where
  "frame_signal_ids s =
     {e. \<exists>d engine_data. display_engine_data_map s d = Some engine_data
           \<and> e \<in> set (map signal_id (frame_event_datas engine_data))}"

text \<open>
  Event identifiers are well formed: every identifier in use was handed out by
  \<^verbatim>\<open>ImportEvent\<close>, and the event of the sentinel image, when there is one, shares its
  identifier with no other image, with no render target, and with no layer image.
\<close>

definition events_wf :: "compositor \<Rightarrow> bool" where
  "events_wf s \<longleftrightarrow>
     (\<forall>i ev. image_event_map s i = Some ev \<longrightarrow> image_signal_id ev < dc_next_event_id s)
     \<and> (\<forall>e \<in> frame_signal_ids s. e < dc_next_event_id s)
     \<and> (\<forall>e \<in> attached_signal_ids s. e < dc_next_event_id s)
     \<and> (\<forall>ev0. image_event_map s kInvalidImageId = Some ev0 \<longrightarrow>
           (\<forall>i ev. i \<noteq> kInvalidImageId \<and> image_event_map s i = Some ev \<longrightarrow>
                image_signal_id ev \<noteq> image_signal_id ev0)
           \<and> image_signal_id ev0 \<notin> frame_signal_ids s
           \<and> image_signal_id ev0 \<notin> attached_signal_ids s)"


section \<open>The compositor and its environment\<close>







text \<open>The value that the spec's \<open>quantize\<close> gives: \<open>floor (255 * clamp (f, 0, 1))\<close>.\<close>

definition quantize :: "real \<Rightarrow> nat" where
  "quantize f = nat \<lfloor>255 * max 0 (min 1 f)\<rfloor>"

section \<open>Example states\<close>

text \<open>
  A compositor with one display of 1920 by 1080 pixels, two layers and a ring of two
  render targets from collection 7; the display controller accepts every configuration.
\<close>

definition example_pixel_format :: pixel_format where
  "example_pixel_format =
     \<lparr>pf_type = BGRA32, has_format_modifier = False,
      format_modifier_value = OtherFormatModifier 0\<rparr>"

definition example_render_target :: "nat \<Rightarrow> image_metadata" where
  "example_render_target i =
     \<lparr>collection_id = 7, image_identifier = 70 + i, vmo_index = i, width = 1920, height = 1080,
      multiply_color = (1, 1, 1, 1), blend_mode = SRC, flip = FLIP_NONE\<rparr>"

definition example_compositor :: compositor where
  "example_compositor =
     \<lparr>pending_apply_configs = [], last_presented_config_stamp = None,
      release_fence_manager = [],
      import_mode = AttemptDisplayConstraints,
      kDisableDisplayComposition = False,
      display_buffer_collection_ptrs = Map.empty,
      buffer_collection_supports_display = [7 \<mapsto> True],
      buffer_collection_pixel_format = [7 \<mapsto> example_pixel_format],
      image_event_map = Map.empty,
      pending_images_in_config = [],
      display_engine_data_map =
        [1 \<mapsto> \<lparr>layers = [1, 2],
                render_targets = [example_render_target 0, example_render_target 1],
                protected_render_targets = [],
                frame_event_datas =
                  [\<lparr>wait_event = False, signal_event = True, wait_id = 1, signal_id = 2\<rparr>,
                   \<lparr>wait_event = False, signal_event = True, wait_id = 3, signal_id = 4\<rparr>],
                vmo_count = 2, curr_vmo = 0\<rparr>],
      display_info_map = [1 \<mapsto> \<lparr>dimensions = (1920, 1080), formats = [ZX_PIXEL_FORMAT_ARGB_8888]\<rparr>],
      cc_state_machine = Idle,
      dc_log = [],
      dc_check_result = (\<lambda>n. True),
      dc_checks = 0,
      dc_stamp = (\<lambda>n. Suc n),
      dc_applies = 0,
      dc_import_collection_ok = (\<lambda>c. True),
      dc_import_image_ok = (\<lambda>i. True),
      dc_next_event_id = 5,
      renderer_log = [],
      renderer_import_collection_ok = (\<lambda>c. True),
      renderer_import_image_ok = (\<lambda>i. True),
      renderer_requires_protected = (\<lambda>ims. False),
      sysmem_log = []\<rparr>"

definition example_token :: buffer_collection_token where
  "example_token =
     \<lparr>token_duplicate_ok = True, token_close_ok = True, token_attach_ok = True,
      token_empty_constraints_ok = True,
      token_collection = \<lparr>buffers_allocated = True, allocated_pixel_format = example_pixel_format\<rparr>\<rparr>"

definition example_image :: image_metadata where
  "example_image =
     \<lparr>collection_id = 3, image_identifier = 9, vmo_index = 0, width = 256, height = 256,
      multiply_color = (1, 1, 1, 1), blend_mode = SRC, flip = FLIP_NONE\<rparr>"

text \<open>A solid-color entry: the sentinel identifier, and the color in \<open>multiply_color\<close>.\<close>

definition example_solid_color :: image_metadata where
  "example_solid_color =
     \<lparr>collection_id = 0, image_identifier = kInvalidImageId, vmo_index = 0, width = 1, height = 1,
      multiply_color = (1, 0, 1 / 2, 1), blend_mode = SRC, flip = FLIP_NONE\<rparr>"

definition example_full_screen :: image_rect where
  "example_full_screen =
     \<lparr>origin = (0, 0), extent = (1920, 1080), rect_orientation = CCW_0_DEGREES\<rparr>"

definition example_partial :: image_rect where
  "example_partial =
     \<lparr>origin = (0, 0), extent = (100, 100), rect_orientation = CCW_0_DEGREES\<rparr>"

definition example_vsync_state :: vsync_state where
  "example_vsync_state =
     \<lparr>pending_apply_configs =
        [\<lparr>config_stamp = 5, frame_number = 1\<rparr>, \<lparr>config_stamp = 6, frame_number = 2\<rparr>,
         \<lparr>config_stamp = 7, frame_number = 3\<rparr>],
      last_presented_config_stamp = Some 4, release_fence_manager = []\<rparr>"


definition renderer_only_example :: compositor where
  "renderer_only_example = example_compositor\<lparr>import_mode := RendererOnly\<rparr>"

text \<open>The example compositor after the import of collection 3, and then of image 9 from it.\<close>

definition imported_collection_example :: compositor where
  "imported_collection_example =
     snd (ImportBufferCollection 3 example_token kClientImage None example_compositor)"

definition imported_image_example :: compositor where
  "imported_image_example =
     (case ImportBufferImage example_image kClientImage imported_collection_example of
        None \<Rightarrow> imported_collection_example
      | Some (ok, s) \<Rightarrow> s)"

text \<open>Frames for one display: a full-screen solid color, a partial one, and an image.\<close>

definition example_full_color_data :: render_data where
  "example_full_color_data =
     \<lparr>rectangles = [example_full_screen], images = [example_solid_color], display_id = 1\<rparr>"

definition example_partial_color_data :: render_data where
  "example_partial_color_data =
     \<lparr>rectangles = [example_partial], images = [example_solid_color], display_id = 1\<rparr>"

text \<open>
  A display \<open>16777217 = 2 ^ 24 + 1\<close> pixels wide, and a solid color one pixel narrower than
  that display.
\<close>

definition wide_display_example :: compositor where
  "wide_display_example =
     example_compositor
       \<lparr>display_info_map :=
          [1 \<mapsto> \<lparr>dimensions = (16777217, 1080), formats = [ZX_PIXEL_FORMAT_ARGB_8888]\<rparr>]\<rparr>"

definition example_narrow :: image_rect where
  "example_narrow =
     \<lparr>origin = (0, 0), extent = (16777216, 1080), rect_orientation = CCW_0_DEGREES\<rparr>"

definition example_narrow_color_data :: render_data where
  "example_narrow_color_data =
     \<lparr>rectangles = [example_narrow], images = [example_solid_color], display_id = 1\<rparr>"

definition example_image_data :: render_data where
  "example_image_data =
     \<lparr>rectangles = [example_full_screen], images = [example_image], display_id = 1\<rparr>"

text \<open>
  The example compositor after planning a full-screen solid color, and after the whole
  frame; the same with a display controller that refuses every configuration.
\<close>

definition example_planned :: compositor where
  "example_planned =
     (case SetRenderDatasOnDisplay [example_full_color_data] (DiscardConfig example_compositor) of
        None \<Rightarrow> example_compositor
      | Some (ok, s) \<Rightarrow> s)"

definition example_direct_frame :: compositor where
  "example_direct_frame =
     (case RenderFrame 1 0 [example_full_color_data] [] 0 example_compositor of
        None \<Rightarrow> example_compositor
      | Some s \<Rightarrow> s)"

definition refusing_example :: compositor where
  "refusing_example = example_compositor\<lparr>dc_check_result := (\<lambda>n. False)\<rparr>"

definition refusing_planned :: compositor where
  "refusing_planned =
     (case SetRenderDatasOnDisplay [example_full_color_data] (DiscardConfig refusing_example) of
        None \<Rightarrow> refusing_example
      | Some (ok, s) \<Rightarrow> s)"

definition example_dropped_frame :: compositor where
  "example_dropped_frame =
     (case RenderFrame 1 0 [example_full_color_data] [] 0 refusing_example of
        None \<Rightarrow> refusing_example
      | Some s \<Rightarrow> s)"

text \<open>
  The compositor with collection 3 and image 9 after a frame that shows image 9, and after
  a second frame that shows it again.
\<close>

definition example_image_frame :: compositor where
  "example_image_frame =
     (case RenderFrame 1 0 [example_image_data] [] 0 imported_image_example of
        None \<Rightarrow> imported_image_example
      | Some s \<Rightarrow> s)"





section \<open>Retirement on vsync\<close>

lemma find_if_None: "find_if P xs = None \<longleftrightarrow> (\<forall>x\<in>set xs. \<not> P x)"
  by (induction xs) (auto split: option.splits)

lemma find_if_Some:
  "find_if P xs = Some k \<longleftrightarrow> k < length xs \<and> P (xs ! k) \<and> (\<forall>j<k. \<not> P (xs ! j))"
proof (induction xs arbitrary: k)
  case Nil
  then show ?case by simp
next
  case (Cons x xs)
  show ?case
  proof (cases "P x")
    case True
    then show ?thesis by (cases k) auto
  next
    case False
    show ?thesis
    proof (cases k)
      case 0
      with False show ?thesis by (auto split: option.splits)
    next
      case (Suc m)
      with False Cons.IH [of m] show ?thesis
        by (auto split: option.splits simp: less_Suc_eq_0_disj)
    qed
  qed
qed

lemma drain_eq:
  "n \<le> length (pending_apply_configs s) \<Longrightarrow>
   drain n t s =
     s\<lparr>release_fence_manager :=
          release_fence_manager s
            @ map (\<lambda>info. RfmOnVsync (frame_number info) t) (take n (pending_apply_configs s)),
        pending_apply_configs := drop n (pending_apply_configs s)\<rparr>"
proof (induction n arbitrary: s)
  case 0
  then show ?case by simp
next
  case (Suc n)
  then obtain info rest where p: "pending_apply_configs s = info # rest"
    by (cases "pending_apply_configs s") auto
  with Suc show ?case by simp
qed

text \<open>
  C2. A vsync whose stamp equals the last presented stamp leaves the state as it is, and so
  does a vsync whose stamp matches no pending entry. Otherwise, with \<open>k\<close> the position of
  the first pending entry with that stamp, the entries \<open>0..k\<close> leave the queue, the
  release-fence manager receives \<open>OnVsync (frame_number, timestamp)\<close> for each of them in
  queue order, and the last presented stamp becomes the received stamp.
\<close>

theorem OnVsync_drains_pending_configs:
  "(last_presented_config_stamp s = Some stamp \<longrightarrow> OnVsync t stamp s = s)
   \<and> (last_presented_config_stamp s \<noteq> Some stamp
        \<and> (\<forall>info \<in> set (pending_apply_configs s). config_stamp info \<noteq> stamp)
      \<longrightarrow> OnVsync t stamp s = s)
   \<and> (last_presented_config_stamp s \<noteq> Some stamp
        \<and> k < length (pending_apply_configs s)
        \<and> config_stamp (pending_apply_configs s ! k) = stamp
        \<and> (\<forall>j<k. config_stamp (pending_apply_configs s ! j) \<noteq> stamp)
      \<longrightarrow> OnVsync t stamp s =
            s\<lparr>release_fence_manager :=
                 release_fence_manager s
                   @ map (\<lambda>info. RfmOnVsync (frame_number info) t)
                       (take (Suc k) (pending_apply_configs s)),
               pending_apply_configs := drop (Suc k) (pending_apply_configs s),
               last_presented_config_stamp := Some stamp\<rparr>)"
proof (intro conjI impI)
  assume "last_presented_config_stamp s = Some stamp"
  then show "OnVsync t stamp s = s" by (simp add: OnVsync_def)
next
  assume a: "last_presented_config_stamp s \<noteq> Some stamp
        \<and> (\<forall>info \<in> set (pending_apply_configs s). config_stamp info \<noteq> stamp)"
  then have "find_if (\<lambda>info. config_stamp info = stamp) (pending_apply_configs s) = None"
    by (simp add: find_if_None)
  with a show "OnVsync t stamp s = s" by (simp add: OnVsync_def)
next
  assume a: "last_presented_config_stamp s \<noteq> Some stamp
        \<and> k < length (pending_apply_configs s)
        \<and> config_stamp (pending_apply_configs s ! k) = stamp
        \<and> (\<forall>j<k. config_stamp (pending_apply_configs s ! j) \<noteq> stamp)"
  then have f: "find_if (\<lambda>info. config_stamp info = stamp) (pending_apply_configs s) = Some k"
    by (simp add: find_if_Some)
  from a have "Suc k \<le> length (pending_apply_configs s)" by simp
  from drain_eq [OF this, of t] f a
  show "OnVsync t stamp s =
            s\<lparr>release_fence_manager :=
                 release_fence_manager s
                   @ map (\<lambda>info. RfmOnVsync (frame_number info) t)
                       (take (Suc k) (pending_apply_configs s)),
               pending_apply_configs := drop (Suc k) (pending_apply_configs s),
               last_presented_config_stamp := Some stamp\<rparr>"
    by (simp add: OnVsync_def)
qed

theorem OnVsync_drains_pending_configs_witness:
  "OnVsync 100 4 example_vsync_state = example_vsync_state
   \<and> OnVsync 100 9 example_vsync_state = example_vsync_state
   \<and> OnVsync 100 6 example_vsync_state =
       \<lparr>pending_apply_configs = [\<lparr>config_stamp = 7, frame_number = 3\<rparr>],
        last_presented_config_stamp = Some 6,
        release_fence_manager = [RfmOnVsync 1 100, RfmOnVsync 2 100]\<rparr>"
  using OnVsync_drains_pending_configs [of example_vsync_state 4 100 0]
        OnVsync_drains_pending_configs [of example_vsync_state 9 100 0]
        OnVsync_drains_pending_configs [of example_vsync_state 6 100 1]
  by (simp add: example_vsync_state_def)

section \<open>Unfolding the operations\<close>

text \<open>An integer up to \<open>2 ^ 24\<close> is a binary32 value: the conversion keeps it.\<close>

lemma ulp_exponent_small: "n < 2 ^ 24 \<Longrightarrow> ulp_exponent n = 0"
  by (simp add: ulp_exponent.simps)

lemma static_cast_float_exact: "n \<le> 2 ^ 24 \<Longrightarrow> static_cast_float n = real n"
proof (cases "n < 2 ^ 24")
  case True
  then show ?thesis by (simp add: static_cast_float_def ulp_exponent_small)
next
  case False
  assume "n \<le> 2 ^ 24"
  with False have n: "n = 2 ^ 24" by simp
  have "ulp_exponent 16777216 = 1"
    by (simp add: ulp_exponent.simps [of 16777216] ulp_exponent.simps [of 8388608])
  with n show ?thesis by (simp add: static_cast_float_def)
qed

text \<open>The first integer that is not: \<open>2 ^ 24 + 1\<close> is a tie, and goes to the even \<open>2 ^ 24\<close>.\<close>

lemma static_cast_float_16777217: "static_cast_float 16777217 = 16777216"
proof -
  have "ulp_exponent 16777217 = 1"
    by (simp add: ulp_exponent.simps [of 16777217] ulp_exponent.simps [of 8388608])
  then show ?thesis by (simp add: static_cast_float_def)
qed

lemmas call_defs = sysmem_call_def renderer_call_def display_controller_call_def

lemmas eval_defs =
  RenderFrame_def SetRenderDatasOnDisplay_def SetRenderDataOnDisplay_def DiscardConfig_def
  CheckConfig_def ApplyConfig_def SetDisplayLayers_def NewImageEventData_def ApplyLayerColor_def
  ApplyLayerImage_def CreateImageConfig_def color_component_def static_cast_uint8_def
  supports_display_at_def image_event_at_def display_info_at_def at_index_def covers_display_def
  assign_layers.simps gpu_compose_display_def clear_past_cc_state_def render_into_slot_def
  PerformGpuComposition_def
  fallback_to_gpu_composition_def apply_and_enqueue_def call_defs Let_def kInvalidImageId_def
  BufferCollectionPixelFormatToZirconFormat_def BufferCollectionPixelFormatToImageType_def
  GetAlphaMode_def TYPE_SIMPLE_def static_cast_float_exact

lemmas example_defs =
  example_compositor_def example_full_color_data_def example_partial_color_data_def
  example_image_data_def example_full_screen_def example_partial_def example_solid_color_def
  example_image_def example_render_target_def example_pixel_format_def

section \<open>Imports and releases\<close>










lemma imported_collection_example_eq:
  "ImportBufferCollection 3 example_token kClientImage None example_compositor
     = (True, imported_collection_example)"
  unfolding imported_collection_example_def
  by (simp add: ImportBufferCollection_def import_display_leg_def call_defs Let_def
        example_compositor_def example_token_def)

text \<open>
  C6. After collection 3 and its image 9 were imported, the display supports the
  collection and its pixel format is cached. \<^verbatim>\<open>ReleaseBufferCollection\<close> erases the
  display-support flag and the observation pointer, and leaves the pixel format in
  \<^verbatim>\<open>buffer_collection_pixel_format_\<close>.
\<close>

theorem ReleaseBufferCollection_keeps_pixel_format:
  "ImportBufferCollection 3 example_token kClientImage None example_compositor
     = (True, imported_collection_example)
   \<and> ImportBufferImage example_image kClientImage imported_collection_example
     = Some (True, imported_image_example)
   \<and> buffer_collection_supports_display imported_image_example 3 = Some True
   \<and> buffer_collection_pixel_format imported_image_example 3 = Some example_pixel_format
   \<and> buffer_collection_supports_display
        (ReleaseBufferCollection 3 kClientImage imported_image_example) 3 = None
   \<and> display_buffer_collection_ptrs
        (ReleaseBufferCollection 3 kClientImage imported_image_example) 3 = None
   \<and> buffer_collection_pixel_format
        (ReleaseBufferCollection 3 kClientImage imported_image_example) 3 = Some example_pixel_format"
  unfolding imported_image_example_def imported_collection_example_def
  by (simp add: ImportBufferCollection_def import_display_leg_def call_defs Let_def
        ImportBufferImage_def determine_display_support_def DetermineDisplaySupportFor_def
        IsValidBufferImage_def kInvalidId_def IsYUV_def CreateImageConfig_def
        BufferCollectionPixelFormatToZirconFormat_def ReleaseBufferCollection_def
        example_compositor_def example_token_def example_image_def example_pixel_format_def)

text \<open>The released collection of the example still has its pixel format.\<close>

theorem ReleaseBufferCollection_keeps_pixel_format_witness:
  "buffer_collection_pixel_format
     (ReleaseBufferCollection 3 kClientImage imported_image_example) 3 = Some example_pixel_format"
  using ReleaseBufferCollection_keeps_pixel_format by simp

text \<open>
  C7, as amended. In \<^verbatim>\<open>RendererOnly\<close> mode a successful \<^verbatim>\<open>ImportBufferCollection\<close> closes
  the display copy of the token right after the duplication, makes no call to the display
  controller, keeps no observation pointer and leaves the display-support map as it was.
  The mark is set by \<^verbatim>\<open>ImportBufferImage\<close>: a valid image that the renderer accepts, of a
  collection not marked as supported, makes the operation succeed with the collection
  marked as not supported.
\<close>

theorem RendererOnly_import_marks_at_image_import:
  "import_mode s = RendererOnly \<longrightarrow>
     (ImportBufferCollection c tok u sz s = (True, s1) \<longrightarrow>
        sysmem_log s1 = sysmem_log s @ [SysDuplicateToken c, SysCloseDisplayToken c]
        \<and> dc_log s1 = dc_log s
        \<and> display_buffer_collection_ptrs s1 = display_buffer_collection_ptrs s
        \<and> buffer_collection_supports_display s1 = buffer_collection_supports_display s)
     \<and> (IsValidBufferImage m \<and> renderer_import_image_ok s (image_identifier m)
          \<and> buffer_collection_supports_display s (collection_id m) \<noteq> Some True \<longrightarrow>
        ImportBufferImage m u s =
          Some (True,
                (renderer_call (RnImportBufferImage m u) s)
                  \<lparr>buffer_collection_supports_display :=
                     (buffer_collection_supports_display s)(collection_id m \<mapsto> False)\<rparr>))"
  by (auto simp: ImportBufferCollection_def ImportBufferImage_def call_defs Let_def
        split: if_splits)

text \<open>
  The theorem at collection 3 and image 9 of the example in \<^verbatim>\<open>RendererOnly\<close> mode.
\<close>

theorem RendererOnly_import_marks_at_image_import_witness:
  "import_mode renderer_only_example = RendererOnly
   \<and> fst (ImportBufferCollection 3 example_token kClientImage None renderer_only_example) = True
   \<and> sysmem_log (snd (ImportBufferCollection 3 example_token kClientImage None renderer_only_example))
       = [SysDuplicateToken 3, SysCloseDisplayToken 3]
   \<and> buffer_collection_supports_display
        (snd (ImportBufferCollection 3 example_token kClientImage None renderer_only_example))
       = [7 \<mapsto> True]
   \<and> ImportBufferImage example_image kClientImage renderer_only_example =
       Some (True,
             (renderer_call (RnImportBufferImage example_image kClientImage) renderer_only_example)
               \<lparr>buffer_collection_supports_display := [7 \<mapsto> True, 3 \<mapsto> False]\<rparr>)"
proof -
  have h1: "import_mode renderer_only_example = RendererOnly"
    and h2: "fst (ImportBufferCollection 3 example_token kClientImage None renderer_only_example) = True"
    and h3: "IsValidBufferImage example_image"
    and h4: "renderer_import_image_ok renderer_only_example (image_identifier example_image)"
    and h5: "buffer_collection_supports_display renderer_only_example (collection_id example_image) \<noteq> Some True"
    and h6: "sysmem_log renderer_only_example = []"
    and h7: "buffer_collection_supports_display renderer_only_example = [7 \<mapsto> True]"
    and h8: "collection_id example_image = 3"
    by (simp_all add: renderer_only_example_def example_compositor_def example_token_def
          example_image_def IsValidBufferImage_def kInvalidId_def ImportBufferCollection_def
          call_defs Let_def)
  from h2 have h2': "ImportBufferCollection 3 example_token kClientImage None renderer_only_example
      = (True, snd (ImportBufferCollection 3 example_token kClientImage None renderer_only_example))"
    by (metis prod.collapse)
  note t = RendererOnly_import_marks_at_image_import
             [where c = 3 and tok = example_token and u = kClientImage and sz = None
                and s = renderer_only_example and m = example_image
                and ?s1.0 = "snd (ImportBufferCollection 3 example_token kClientImage None renderer_only_example)"]
  from t h1 h2 h2' h3 h4 h5 h6 h7 h8 show ?thesis
    by simp
qed

text \<open>
  C7 as stated fails: right after the successful import of collection 3 in
  \<^verbatim>\<open>RendererOnly\<close> mode the collection has no display-support entry.
\<close>

theorem RendererOnly_import_leaves_support_unset:
  "fst (ImportBufferCollection 3 example_token kClientImage None renderer_only_example) = True
   \<and> buffer_collection_supports_display
        (snd (ImportBufferCollection 3 example_token kClientImage None renderer_only_example)) 3
       = None
   \<and> buffer_collection_supports_display
        (snd (ImportBufferCollection 3 example_token kClientImage None renderer_only_example)) 3
       \<noteq> Some False"
  by (simp add: ImportBufferCollection_def call_defs Let_def
        renderer_only_example_def example_compositor_def example_token_def)

section \<open>Solid colors\<close>


lemma color_component_in_range:
  "- 1 < 255 * f \<and> 255 * f < 256 \<Longrightarrow> color_component f = Some (quantize f)"
proof -
  assume a: "- 1 < 255 * f \<and> 255 * f < 256"
  show ?thesis
  proof (cases "0 \<le> f")
    case True
    show ?thesis
    proof (cases "f \<le> 1")
      case True
      with \<open>0 \<le> f\<close> a show ?thesis
        by (simp add: color_component_def static_cast_uint8_def quantize_def)
    next
      case False
      with a have "\<lfloor>255 * f\<rfloor> = 255" by (intro floor_unique) auto
      with False \<open>0 \<le> f\<close> a show ?thesis
        by (simp add: color_component_def static_cast_uint8_def quantize_def)
    qed
  next
    case False
    with a have "\<lceil>255 * f\<rceil> = 0" by (intro ceiling_unique) auto
    with False a show ?thesis
      by (simp add: color_component_def static_cast_uint8_def quantize_def)
  qed
qed

lemma color_component_out_of_range:
  "\<not> (- 1 < 255 * f \<and> 255 * f < 256) \<Longrightarrow> color_component f = None"
  by (auto simp add: color_component_def static_cast_uint8_def)

text \<open>
  C9, as amended. The payload of \<^verbatim>\<open>SetLayerColorConfig\<close> holds, for each component \<open>c\<close>
  of the multiply color with \<open>- 1 < 255 * c < 256\<close>, the value \<open>floor (255 * clamp (c, 0, 1))\<close>.
  The source does not clamp: when a component is outside that range the conversion to
  \<^verbatim>\<open>uint8_t\<close> has no defined result, and the model yields none.
\<close>

theorem ApplyLayerColor_payload:
  assumes "multiply_color img = (c0, c1, c2, c3)"
  shows "((\<forall>c \<in> {c0, c1, c2, c3}. - 1 < 255 * c \<and> 255 * c < 256) \<longrightarrow>
            ApplyLayerColor layer rect img s =
              Some (display_controller_call
                      (DcSetLayerColorConfig layer ZX_PIXEL_FORMAT_ARGB_8888
                         [quantize c0, quantize c1, quantize c2, quantize c3]) s))
         \<and> (\<not> (\<forall>c \<in> {c0, c1, c2, c3}. - 1 < 255 * c \<and> 255 * c < 256) \<longrightarrow>
            ApplyLayerColor layer rect img s = None)"
proof (intro conjI impI)
  assume "\<forall>c \<in> {c0, c1, c2, c3}. - 1 < 255 * c \<and> 255 * c < 256"
  then show "ApplyLayerColor layer rect img s =
              Some (display_controller_call
                      (DcSetLayerColorConfig layer ZX_PIXEL_FORMAT_ARGB_8888
                         [quantize c0, quantize c1, quantize c2, quantize c3]) s)"
    using assms by (simp add: ApplyLayerColor_def color_component_in_range)
next
  assume "\<not> (\<forall>c \<in> {c0, c1, c2, c3}. - 1 < 255 * c \<and> 255 * c < 256)"
  then consider "\<not> (- 1 < 255 * c0 \<and> 255 * c0 < 256)" | "\<not> (- 1 < 255 * c1 \<and> 255 * c1 < 256)"
    | "\<not> (- 1 < 255 * c2 \<and> 255 * c2 < 256)" | "\<not> (- 1 < 255 * c3 \<and> 255 * c3 < 256)"
    by auto
  then show "ApplyLayerColor layer rect img s = None"
  proof cases
    case 1
    from color_component_out_of_range [OF this] assms show ?thesis
      by (simp add: ApplyLayerColor_def)
  next
    case 2
    from color_component_out_of_range [OF this] assms show ?thesis
      by (simp add: ApplyLayerColor_def split: option.splits)
  next
    case 3
    from color_component_out_of_range [OF this] assms show ?thesis
      by (simp add: ApplyLayerColor_def split: option.splits)
  next
    case 4
    from color_component_out_of_range [OF this] assms show ?thesis
      by (simp add: ApplyLayerColor_def split: option.splits)
  qed
qed

text \<open>
  The theorem at the color \<open>(1, 0, 1/2, 1)\<close>, and at \<open>(2, 0, 0, 1)\<close>.
\<close>

theorem ApplyLayerColor_payload_witness:
  "ApplyLayerColor 1 example_full_screen example_solid_color example_compositor =
     Some (display_controller_call
             (DcSetLayerColorConfig 1 ZX_PIXEL_FORMAT_ARGB_8888 [255, 0, 127, 255])
             example_compositor)
   \<and> ApplyLayerColor 1 example_full_screen
        (example_solid_color\<lparr>multiply_color := (2, 0, 0, 1)\<rparr>) example_compositor = None"
  using ApplyLayerColor_payload [of example_solid_color 1 0 "1 / 2" 1 1 example_full_screen example_compositor]
        ApplyLayerColor_payload [of "example_solid_color\<lparr>multiply_color := (2, 0, 0, 1)\<rparr>" 2 0 0 1 1
           example_full_screen example_compositor]
  by (simp add: example_solid_color_def quantize_def)

text \<open>
  C9 as stated fails: for the component 2 the payload is not the clamped value 255.
\<close>

theorem ApplyLayerColor_does_not_clamp:
  "ApplyLayerColor 1 example_full_screen
     (example_solid_color\<lparr>multiply_color := (2, 0, 0, 1)\<rparr>) example_compositor
   \<noteq> Some (display_controller_call
             (DcSetLayerColorConfig 1 ZX_PIXEL_FORMAT_ARGB_8888
                [quantize 2, quantize 0, quantize 0, quantize 1])
             example_compositor)"
  by (simp add: ApplyLayerColor_def color_component_def static_cast_uint8_def example_solid_color_def)

section \<open>Direct-scanout planning, step by step\<close>

lemma events_kept_refl: "events_kept s s"
  by (simp add: events_kept_def)

lemma events_kept_trans: "events_kept s s1 \<Longrightarrow> events_kept s1 s2 \<Longrightarrow> events_kept s s2"
  by (simp add: events_kept_def)

lemma events_new_signaled_refl: "events_new_signaled s s"
  by (simp add: events_new_signaled_def)

lemma events_new_signaled_trans:
  "events_new_signaled s s1 \<Longrightarrow> events_new_signaled s1 s2 \<Longrightarrow> events_new_signaled s s2"
  unfolding events_new_signaled_def by blast

lemma attached_signal_ids_call:
  "attached_signal_ids (display_controller_call c s) =
     (case call_signal_id c of None \<Rightarrow> attached_signal_ids s
      | Some e \<Rightarrow> insert e (attached_signal_ids s))"
  by (auto simp: attached_signal_ids_def display_controller_call_def split: option.splits)

lemma display_dimensions_update [simp]:
  "display_dimensions (s\<lparr>image_event_map := a\<rparr>) = display_dimensions s"
  "display_dimensions (s\<lparr>pending_images_in_config := b\<rparr>) = display_dimensions s"
  "display_dimensions (s\<lparr>dc_log := c\<rparr>) = display_dimensions s"
  "display_dimensions (s\<lparr>dc_next_event_id := d\<rparr>) = display_dimensions s"
  "display_dimensions (s\<lparr>buffer_collection_supports_display := e\<rparr>) = display_dimensions s"
  by (simp_all add: display_dimensions_def fun_eq_iff)

lemma ApplyLayerImage_frame:
  "ApplyLayerImage layer rect img w sg s = Some s' \<Longrightarrow>
   planner_frame s' = planner_frame s \<and> gpu_frame s' = gpu_frame s
   \<and> image_event_map s' = image_event_map s
   \<and> pending_images_in_config s' = pending_images_in_config s
   \<and> dc_next_event_id s' = dc_next_event_id s
   \<and> display_dimensions s' = display_dimensions s
   \<and> display_engine_data_map s' = display_engine_data_map s
   \<and> cc_state_machine s' = cc_state_machine s
   \<and> dc_checks s' = dc_checks s
   \<and> attached_signal_ids s' = insert sg (attached_signal_ids s)"
  by (auto simp: ApplyLayerImage_def planner_frame_def gpu_frame_def display_dimensions_def
        attached_signal_ids_def call_defs split: option.splits)

lemma ApplyLayerColor_frame:
  "ApplyLayerColor layer rect img s = Some s' \<Longrightarrow>
   planner_frame s' = planner_frame s \<and> image_event_map s' = image_event_map s
   \<and> pending_images_in_config s' = pending_images_in_config s
   \<and> dc_next_event_id s' = dc_next_event_id s
   \<and> display_dimensions s' = display_dimensions s
   \<and> attached_signal_ids s' = attached_signal_ids s"
  by (auto simp: ApplyLayerColor_def planner_frame_def display_dimensions_def
        attached_signal_ids_def call_defs split: option.splits prod.splits)

lemma supports_display_at_frame:
  "supports_display_at c s = (b, s') \<Longrightarrow>
   planner_frame s' = planner_frame s \<and> image_event_map s' = image_event_map s
   \<and> pending_images_in_config s' = pending_images_in_config s
   \<and> dc_next_event_id s' = dc_next_event_id s
   \<and> display_dimensions s' = display_dimensions s
   \<and> attached_signal_ids s' = attached_signal_ids s"
  by (auto simp: supports_display_at_def planner_frame_def display_dimensions_def
        attached_signal_ids_def split: option.splits)

lemma image_event_at_present:
  "image_event_map s i = Some ev \<Longrightarrow> image_event_at i s = (ev, s)"
  by (simp add: image_event_at_def)

lemma display_info_at_frame:
  "display_info_at d s = (info, s') \<Longrightarrow>
   planner_frame s' = planner_frame s \<and> image_event_map s' = image_event_map s
   \<and> pending_images_in_config s' = pending_images_in_config s
   \<and> dc_next_event_id s' = dc_next_event_id s
   \<and> display_dimensions s' = display_dimensions s
   \<and> attached_signal_ids s' = attached_signal_ids s
   \<and> dimensions info = display_dimensions s d"
  by (auto simp: display_info_at_def planner_frame_def display_dimensions_def fun_eq_iff
        attached_signal_ids_def split: option.splits if_splits)

lemma NewImageEventData_frame:
  "NewImageEventData s = (ev, s') \<Longrightarrow>
   planner_frame s' = planner_frame s \<and> image_event_map s' = image_event_map s
   \<and> pending_images_in_config s' = pending_images_in_config s
   \<and> display_dimensions s' = display_dimensions s
   \<and> attached_signal_ids s' = attached_signal_ids s
   \<and> dc_next_event_id s' = Suc (dc_next_event_id s)
   \<and> image_signal_id ev = dc_next_event_id s
   \<and> image_signal_event ev"
  by (auto simp: NewImageEventData_def planner_frame_def display_dimensions_def
        attached_signal_ids_def call_defs)



text \<open>What one step of the planning keeps.\<close>

lemma staging_step_frame:
  "staging_step s s' \<Longrightarrow>
   planner_frame s' = planner_frame s \<and> events_kept s s' \<and> events_new_signaled s s'
   \<and> display_dimensions s' = display_dimensions s
   \<and> set (pending_images_in_config s) \<subseteq> set (pending_images_in_config s')"
proof (induction rule: staging_step.induct)
  case (new_event s i ev s1)
  from NewImageEventData_frame [OF new_event(2)] new_event(1) show ?case
    by (auto simp: planner_frame_def events_kept_def events_new_signaled_def)
next
  case (recorded s i ev)
  then show ?case
    by (auto simp: planner_frame_def events_kept_def events_new_signaled_def)
next
  case (display_layers s d ls)
  then show ?case
    by (auto simp: planner_frame_def events_kept_def events_new_signaled_def
          SetDisplayLayers_def call_defs)
next
  case (supports c s b s1)
  from supports_display_at_frame [OF this] show ?case
    by (auto simp: events_kept_def events_new_signaled_def)
next
  case (layer_image img s ev layer rect s1)
  from ApplyLayerImage_frame [OF layer_image(3)] show ?case
    by (auto simp: events_kept_def events_new_signaled_def)
next
  case (display_info d s info s1)
  from display_info_at_frame [OF this] show ?case
    by (auto simp: events_kept_def events_new_signaled_def)
next
  case (layer_color layer rect img s s1)
  from ApplyLayerColor_frame [OF this] show ?case
    by (auto simp: events_kept_def events_new_signaled_def)
next
  case (color_conversion s d pre co post)
  then show ?case
    by (auto simp: planner_frame_def events_kept_def events_new_signaled_def call_defs)
qed

lemma staging_steps_frame:
  "staging_step\<^sup>*\<^sup>* s s' \<Longrightarrow>
   planner_frame s' = planner_frame s \<and> events_kept s s' \<and> events_new_signaled s s'
   \<and> display_dimensions s' = display_dimensions s
   \<and> set (pending_images_in_config s) \<subseteq> set (pending_images_in_config s')"
proof (induction rule: rtranclp_induct)
  case base
  show ?case by (simp add: events_kept_refl events_new_signaled_refl)
next
  case (step y z)
  from staging_step_frame [OF step(2)] step(3) show ?case
    by (auto intro: events_kept_trans events_new_signaled_trans)
qed

text \<open>Recorded images have an event.\<close>

lemma staging_step_pending_dom:
  "staging_step s s' \<Longrightarrow>
   set (pending_images_in_config s) \<subseteq> dom (image_event_map s) \<Longrightarrow>
   set (pending_images_in_config s') \<subseteq> dom (image_event_map s')"
proof (induction rule: staging_step.induct)
  case (new_event s i ev s1)
  from NewImageEventData_frame [OF new_event(2)] new_event(1,3) show ?case by auto
next
  case (recorded s i ev)
  then show ?case by auto
next
  case (display_layers s d ls)
  then show ?case by (simp add: SetDisplayLayers_def call_defs)
next
  case (supports c s b s1)
  from supports_display_at_frame [OF supports(1)] supports(2) show ?case by simp
next
  case (layer_image img s ev layer rect s1)
  from ApplyLayerImage_frame [OF layer_image(3)] layer_image(4) show ?case by simp
next
  case (display_info d s info s1)
  from display_info_at_frame [OF display_info(1)] display_info(2) show ?case by simp
next
  case (layer_color layer rect img s s1)
  from ApplyLayerColor_frame [OF layer_color(1)] layer_color(2) show ?case by simp
next
  case (color_conversion s d pre co post)
  then show ?case by (simp add: call_defs)
qed

lemma staging_steps_pending_dom:
  "staging_step\<^sup>*\<^sup>* s s' \<Longrightarrow>
   set (pending_images_in_config s) \<subseteq> dom (image_event_map s) \<Longrightarrow>
   set (pending_images_in_config s') \<subseteq> dom (image_event_map s')"
  by (induction rule: rtranclp_induct) (auto dest: staging_step_pending_dom)


text \<open>Well-formed event identifiers stay well formed.\<close>

lemma events_wf_cong:
  assumes "events_wf s"
    and "image_event_map s' = image_event_map s"
    and "frame_signal_ids s' = frame_signal_ids s"
    and "attached_signal_ids s' = attached_signal_ids s"
    and "dc_next_event_id s \<le> dc_next_event_id s'"
  shows "events_wf s'"
  using assms unfolding events_wf_def
  by (metis (no_types, lifting) less_le_trans)


lemma events_wf_attach:
  assumes wf: "events_wf s"
    and iem: "image_event_map s' = image_event_map s"
    and nxt: "dc_next_event_id s' = dc_next_event_id s"
    and fr: "frame_signal_ids s' = frame_signal_ids s"
    and at: "attached_signal_ids s' = insert sg (attached_signal_ids s)"
    and sg: "(\<exists>i ev. i \<noteq> kInvalidImageId \<and> image_event_map s i = Some ev \<and> image_signal_id ev = sg)
             \<or> sg \<in> frame_signal_ids s"
  shows "events_wf s'"
  using assms unfolding events_wf_def
  by (metis (no_types, lifting) insertE)




text \<open>The first loop consists of planning steps; when it succeeds, its images are recorded.\<close>

lemma record_pending_images_steps:
  "record_pending_images ims s = (b, s') \<Longrightarrow>
   staging_step\<^sup>*\<^sup>* s s'
   \<and> (b \<longrightarrow> image_identifier ` set ims \<subseteq> set (pending_images_in_config s')
           \<and> image_identifier ` set ims \<subseteq> dom (image_event_map s'))"
proof (induction ims arbitrary: s)
  case Nil
  then show ?case by simp
next
  case (Cons img rest)
  show ?case
  proof (cases "image_event_map s (image_identifier img)")
    case None
    obtain ev s1 where n: "NewImageEventData s = (ev, s1)" by (cases "NewImageEventData s")
    let ?s2 = "s1\<lparr>image_event_map := (image_event_map s1)(image_identifier img \<mapsto> ev),
                  pending_images_in_config := pending_images_in_config s1 @ [image_identifier img]\<rparr>"
    from Cons.prems None n have r: "record_pending_images rest ?s2 = (b, s')" by simp
    have st: "staging_step s ?s2" by (rule staging_step.new_event [OF None n])
    note ih = Cons.IH [OF r]
    from ih have f: "events_kept ?s2 s'"
      "set (pending_images_in_config ?s2) \<subseteq> set (pending_images_in_config s')"
      using staging_steps_frame by blast+
    from f have "image_identifier img \<in> set (pending_images_in_config s')"
      "image_identifier img \<in> dom (image_event_map s')"
      by (auto simp: events_kept_def)
    with ih st show ?thesis by (auto intro: converse_rtranclp_into_rtranclp)
  next
    case (Some ev)
    show ?thesis
    proof (cases "image_signal_event ev")
      case True
      let ?s2 = "s\<lparr>pending_images_in_config := pending_images_in_config s @ [image_identifier img]\<rparr>"
      from Cons.prems Some True have r: "record_pending_images rest ?s2 = (b, s')" by simp
      have st: "staging_step s ?s2" by (rule staging_step.recorded [OF Some True])
      note ih = Cons.IH [OF r]
      from ih have f: "events_kept ?s2 s'"
        "set (pending_images_in_config ?s2) \<subseteq> set (pending_images_in_config s')"
        using staging_steps_frame by blast+
      from f Some have "image_identifier img \<in> set (pending_images_in_config s')"
        "image_identifier img \<in> dom (image_event_map s')"
        by (auto simp: events_kept_def)
      with ih st show ?thesis by (auto intro: converse_rtranclp_into_rtranclp)
    next
      case False
      with Cons.prems Some show ?thesis by simp
    qed
  qed
qed



text \<open>One iteration of the second loop.\<close>

lemma assign_layers_done:
  "\<not> i < n \<Longrightarrow> assign_layers i n data ls s = Some (True, s)"
  by (simp add: assign_layers.simps [of i])

lemma assign_layers_unfold:
  assumes "assign_layers i n data ls s = Some (b, s')" and "i < n"
  obtains
    (unsupported) img s1 where "at_index (images data) i = Some img"
      "image_identifier img \<noteq> kInvalidImageId"
      "supports_display_at (collection_id img) s = (False, s1)" "\<not> b" "s' = s1"
  | (layer_image) img s1 layer rect ev s2 s3 where "at_index (images data) i = Some img"
      "image_identifier img \<noteq> kInvalidImageId"
      "supports_display_at (collection_id img) s = (True, s1)"
      "at_index ls i = Some layer" "at_index (rectangles data) i = Some rect"
      "image_event_at (image_identifier img) s1 = (ev, s2)"
      "ApplyLayerImage layer rect img 0 (image_signal_id ev) s2 = Some s3"
      "assign_layers (Suc i) n data ls s3 = Some (b, s')"
  | (bad_color) img rect info s1 where "at_index (images data) i = Some img"
      "image_identifier img = kInvalidImageId"
      "at_index (rectangles data) i = Some rect"
      "display_info_at (display_id data) s = (info, s1)"
      "\<not> covers_display i rect (dimensions info)" "\<not> b" "s' = s1"
  | (layer_color) img rect info s1 layer s2 where "at_index (images data) i = Some img"
      "image_identifier img = kInvalidImageId"
      "at_index (rectangles data) i = Some rect"
      "display_info_at (display_id data) s = (info, s1)"
      "covers_display i rect (dimensions info)"
      "at_index ls i = Some layer"
      "ApplyLayerColor layer rect img s1 = Some s2"
      "assign_layers (Suc i) n data ls s2 = Some (b, s')"
  using assms
  by (subst (asm) assign_layers.simps)
     (auto split: option.splits if_splits prod.splits)


lemma image_event_at_dimensions:
  "image_event_at i s = (ev, s') \<Longrightarrow> display_dimensions s' = display_dimensions s"
  by (auto simp: image_event_at_def split: option.splits)

text \<open>When every image has an event, the second loop consists of planning steps.\<close>

lemma assign_layers_steps:
  "assign_layers i n data ls s = Some (b, s') \<Longrightarrow>
   (\<forall>j img. j < n \<and> at_index (images data) j = Some img \<longrightarrow>
      image_identifier img \<in> dom (image_event_map s)) \<Longrightarrow>
   staging_step\<^sup>*\<^sup>* s s'"
proof (induction "n - i" arbitrary: i s)
  case 0
  then have "\<not> i < n" by simp
  from assign_layers_done [OF this] "0.prems" show ?case by simp
next
  case (Suc k)
  then have lt: "i < n" and k: "k = n - Suc i" by simp_all
  from Suc.prems(1) lt show ?case
  proof (cases rule: assign_layers_unfold)
    case (unsupported img s1)
    then show ?thesis by (auto intro: staging_step.supports)
  next
    case (layer_image img s1 layer rect ev s2 s3)
    note f1 = supports_display_at_frame [OF layer_image(3)]
    from Suc.prems(2) lt layer_image(1) have "image_identifier img \<in> dom (image_event_map s)"
      by blast
    with f1 obtain ev' where
      ev': "image_event_map s1 (image_identifier img) = Some ev'" by auto
    from image_event_at_present [OF ev'] layer_image(6) have eq: "ev = ev'" "s2 = s1" by simp_all
    note f3 = ApplyLayerImage_frame [OF layer_image(7)]
    have st1: "staging_step s s1" by (rule staging_step.supports [OF layer_image(3)])
    have st2: "staging_step s1 s3"
      using staging_step.layer_image [OF layer_image(2) ev'] layer_image(7) eq by simp
    from Suc.prems(2) f1 f3 eq have
      "\<forall>j img. j < n \<and> at_index (images data) j = Some img \<longrightarrow>
         image_identifier img \<in> dom (image_event_map s3)" by simp
    from Suc.hyps(1) [OF k layer_image(8) this] st1 st2 show ?thesis
      by (meson converse_rtranclp_into_rtranclp)
  next
    case (bad_color img rect info s1)
    then show ?thesis by (auto intro: staging_step.display_info)
  next
    case (layer_color img rect info s1 layer s2)
    note f1 = display_info_at_frame [OF layer_color(4)]
    note f2 = ApplyLayerColor_frame [OF layer_color(7)]
    have st1: "staging_step s s1" by (rule staging_step.display_info [OF layer_color(4)])
    have st2: "staging_step s1 s2" by (rule staging_step.layer_color [OF layer_color(7)])
    from Suc.prems(2) f1 f2 have
      "\<forall>j img. j < n \<and> at_index (images data) j = Some img \<longrightarrow>
         image_identifier img \<in> dom (image_event_map s2)" by simp
    from Suc.hyps(1) [OF k layer_color(8) this] st1 st2 show ?thesis
      by (meson converse_rtranclp_into_rtranclp)
  qed
qed

text \<open>
  When the second loop succeeds, every solid-color entry from index \<open>i\<close> on is entry 0 and
  covers the display.
\<close>

lemma assign_layers_solid_color:
  "assign_layers i n data ls s = Some (True, s') \<Longrightarrow> i \<le> j \<Longrightarrow> j < n \<Longrightarrow>
   at_index (images data) j = Some img \<Longrightarrow> image_identifier img = kInvalidImageId \<Longrightarrow>
   \<exists>rect. at_index (rectangles data) j = Some rect
     \<and> covers_display j rect (display_dimensions s (display_id data))"
proof (induction "n - i" arbitrary: i s)
  case 0
  then show ?case by simp
next
  case (Suc k)
  then have lt: "i < n" and k: "k = n - Suc i" by simp_all
  from Suc.prems(1) lt show ?case
  proof (cases rule: assign_layers_unfold)
    case (unsupported img0 s1)
    then show ?thesis by simp
  next
    case (layer_image img0 s1 layer rect ev s2 s3)
    with Suc.prems have "j \<noteq> i" by auto
    with Suc.prems have le: "Suc i \<le> j" by simp
    from supports_display_at_frame [OF layer_image(3)] image_event_at_dimensions [OF layer_image(6)]
      ApplyLayerImage_frame [OF layer_image(7)]
    have "display_dimensions s3 = display_dimensions s" by simp
    with Suc.hyps(1) [OF k layer_image(8) le Suc.prems(3,4,5)] show ?thesis by simp
  next
    case (bad_color img0 rect info s1)
    then show ?thesis by simp
  next
    case (layer_color img0 rect info s1 layer s2)
    note f1 = display_info_at_frame [OF layer_color(4)]
    show ?thesis
    proof (cases "j = i")
      case True
      with layer_color f1 show ?thesis by simp
    next
      case False
      with Suc.prems have le: "Suc i \<le> j" by simp
      from f1 ApplyLayerColor_frame [OF layer_color(7)]
      have "display_dimensions s2 = display_dimensions s" by simp
      with Suc.hyps(1) [OF k layer_color(8) le Suc.prems(3,4,5)] show ?thesis by simp
    qed
  qed
qed

text \<open>\<^verbatim>\<open>SetRenderDataOnDisplay\<close> as a whole.\<close>

lemma at_index_take:
  "at_index xs j = Some x \<Longrightarrow> j < n \<Longrightarrow> x \<in> set (take n xs)"
  by (auto simp: at_index_def in_set_conv_nth split: if_splits intro!: exI [of _ j])

lemma SetRenderDataOnDisplay_steps:
  assumes "SetRenderDataOnDisplay data s = Some (b, s')"
  shows "staging_step\<^sup>*\<^sup>* s s'"
    and "b \<Longrightarrow> length (images data) < 2 ^ 32 \<Longrightarrow>
         image_identifier ` set (images data) \<subseteq> set (pending_images_in_config s')"
proof -
  let ?n = "length (images data) mod 2 ^ 32"
  from assms obtain engine_data where
    ed: "display_engine_data_map s (display_id data) = Some engine_data"
    by (auto simp: SetRenderDataOnDisplay_def Let_def split: option.splits)
  obtain b1 s1 where rp: "record_pending_images (take ?n (images data)) s = (b1, s1)"
    by (cases "record_pending_images (take ?n (images data)) s")
  note r = record_pending_images_steps [OF rp]
  have "staging_step\<^sup>*\<^sup>* s s'
        \<and> (b \<longrightarrow> length (images data) < 2 ^ 32 \<longrightarrow>
             image_identifier ` set (images data) \<subseteq> set (pending_images_in_config s'))"
  proof (cases "length (layers engine_data) < ?n")
    case True
    with assms ed show ?thesis by (simp add: SetRenderDataOnDisplay_def Let_def)
  next
    case False
    show ?thesis
    proof (cases b1)
      case False
      with assms ed rp \<open>\<not> length (layers engine_data) < ?n\<close> r show ?thesis
        by (simp add: SetRenderDataOnDisplay_def Let_def)
    next
      case True
      let ?s2 = "SetDisplayLayers (display_id data) (take ?n (layers engine_data)) s1"
      from assms ed rp True \<open>\<not> length (layers engine_data) < ?n\<close>
      have al: "assign_layers 0 ?n data (layers engine_data) ?s2 = Some (b, s')"
        by (simp add: SetRenderDataOnDisplay_def Let_def)
      have st: "staging_step s1 ?s2" by (rule staging_step.display_layers)
      from r True have dom: "image_identifier ` set (take ?n (images data)) \<subseteq> dom (image_event_map s1)"
        and pend: "image_identifier ` set (take ?n (images data)) \<subseteq> set (pending_images_in_config s1)"
        by simp_all
      have iem: "image_event_map ?s2 = image_event_map s1"
        by (simp add: SetDisplayLayers_def call_defs)
      have pre: "\<forall>j img. j < ?n \<and> at_index (images data) j = Some img \<longrightarrow>
                   image_identifier img \<in> dom (image_event_map ?s2)"
        using dom iem at_index_take by fastforce
      note a = assign_layers_steps [OF al pre]
      from r st a have steps: "staging_step\<^sup>*\<^sup>* s s'"
        by (meson rtranclp.rtrancl_into_rtrancl rtranclp_trans)
      from staging_steps_frame [OF a] staging_step_frame [OF st] pend
      have p: "image_identifier ` set (take ?n (images data)) \<subseteq> set (pending_images_in_config s')"
        by blast
      have "length (images data) < 2 ^ 32 \<longrightarrow>
              image_identifier ` set (images data) \<subseteq> set (pending_images_in_config s')"
      proof
        assume "length (images data) < 2 ^ 32"
        then have "take ?n (images data) = images data" by simp
        with p show "image_identifier ` set (images data) \<subseteq> set (pending_images_in_config s')"
          by simp
      qed
      with steps show ?thesis by simp
    qed
  qed
  then show "staging_step\<^sup>*\<^sup>* s s'"
    and "b \<Longrightarrow> length (images data) < 2 ^ 32 \<Longrightarrow>
         image_identifier ` set (images data) \<subseteq> set (pending_images_in_config s')"
    by blast+
qed



lemma SetRenderDataOnDisplay_solid_color:
  assumes "SetRenderDataOnDisplay data s = Some (ok, s')"
    and "i < length (images data)" and "length (images data) < 2 ^ 32"
    and "image_identifier (images data ! i) = kInvalidImageId"
    and "\<not> (i = 0 \<and> (\<exists>rect. at_index (rectangles data) 0 = Some rect
                \<and> origin rect = (0, 0)
                \<and> extent rect = (static_cast_float (fst (display_dimensions s (display_id data))),
                                  static_cast_float (snd (display_dimensions s (display_id data))))))"
  shows "\<not> ok"
proof
  assume ok
  let ?n = "length (images data) mod 2 ^ 32"
  from assms(3) have n: "?n = length (images data)" by simp
  from assms(1) obtain engine_data where
    ed: "display_engine_data_map s (display_id data) = Some engine_data"
    by (auto simp: SetRenderDataOnDisplay_def Let_def split: option.splits)
  obtain b1 s1 where rp: "record_pending_images (take ?n (images data)) s = (b1, s1)"
    by (cases "record_pending_images (take ?n (images data)) s")
  let ?s2 = "SetDisplayLayers (display_id data) (take ?n (layers engine_data)) s1"
  from assms(1) \<open>ok\<close> ed rp
  have al: "assign_layers 0 ?n data (layers engine_data) ?s2 = Some (True, s')"
    by (auto simp: SetRenderDataOnDisplay_def Let_def split: if_splits bool.splits)
  from record_pending_images_steps [OF rp] have "staging_step\<^sup>*\<^sup>* s s1" by simp
  from staging_steps_frame [OF this]
    staging_step_frame [OF staging_step.display_layers
      [of s1 "display_id data" "take ?n (layers engine_data)"]]
  have dd: "display_dimensions ?s2 = display_dimensions s" by simp
  from assms(2) have ai: "at_index (images data) i = Some (images data ! i)"
    by (simp add: at_index_def)
  from assign_layers_solid_color [OF al _ _ ai assms(4)] assms(2) n dd
  obtain rect where r: "at_index (rectangles data) i = Some rect"
    "covers_display i rect (display_dimensions s (display_id data))"
    by auto
  from r(2) have "i = 0" "origin rect = (0, 0)"
    "extent rect = (static_cast_float (fst (display_dimensions s (display_id data))),
                    static_cast_float (snd (display_dimensions s (display_id data))))"
    by (auto simp: covers_display_def prod_eq_iff)
  with r(1) assms(5) show False by simp
qed

text \<open>The loop over the displays of a frame.\<close>

lemma set_render_datas_steps:
  "set_render_datas datas s = Some (b, s') \<Longrightarrow>
   staging_step\<^sup>*\<^sup>* s s'
   \<and> (b \<longrightarrow> (\<forall>data \<in> set datas. length (images data) < 2 ^ 32 \<longrightarrow>
                image_identifier ` set (images data) \<subseteq> set (pending_images_in_config s')))"
proof (induction datas arbitrary: s)
  case Nil
  then show ?case by simp
next
  case (Cons data rest)
  from Cons.prems obtain b1 s1 where srd: "SetRenderDataOnDisplay data s = Some (b1, s1)"
    by (auto split: option.splits)
  note st1 = SetRenderDataOnDisplay_steps(1) [OF srd]
  show ?case
  proof (cases b1)
    case False
    with Cons.prems srd st1 show ?thesis by simp
  next
    case True
    let ?s2 = "(case GetDataToApply (cc_state_machine s1) of
               None \<Rightarrow> s1
             | Some cc_data \<Rightarrow>
                 display_controller_call
                   (DcSetDisplayColorConversion (display_id data) (preoffsets cc_data)
                      (coefficients cc_data) (postoffsets cc_data)) s1)"
    from Cons.prems srd True have r: "set_render_datas rest ?s2 = Some (b, s')" by simp
    have st2: "staging_step\<^sup>*\<^sup>* s1 ?s2"
      by (auto split: option.splits intro: staging_step.color_conversion)
    note ih = Cons.IH [OF r]
    from st1 st2 ih have steps: "staging_step\<^sup>*\<^sup>* s s'" by (meson rtranclp_trans)
    from ih have f: "staging_step\<^sup>*\<^sup>* s1 s'" using st2 by (meson rtranclp_trans)
    from staging_steps_frame [OF f] SetRenderDataOnDisplay_steps(2) [OF srd True]
    have "length (images data) < 2 ^ 32 \<longrightarrow>
            image_identifier ` set (images data) \<subseteq> set (pending_images_in_config s')"
      by blast
    with steps ih show ?thesis by simp
  qed
qed


lemma SetRenderDatasOnDisplay_steps:
  "SetRenderDatasOnDisplay datas s = Some (b, s') \<Longrightarrow>
   staging_step\<^sup>*\<^sup>* s s'
   \<and> (b \<longrightarrow> \<not> kDisableDisplayComposition s
         \<and> (\<forall>data \<in> set datas. length (images data) < 2 ^ 32 \<longrightarrow>
                image_identifier ` set (images data) \<subseteq> set (pending_images_in_config s')))"
  using set_render_datas_steps [of datas s b s']
  by (auto simp: SetRenderDatasOnDisplay_def split: if_splits)


lemma set_render_datas_solid_color:
  "set_render_datas datas s = Some (ok, s') \<Longrightarrow> data \<in> set datas \<Longrightarrow>
   i < length (images data) \<Longrightarrow> length (images data) < 2 ^ 32 \<Longrightarrow>
   image_identifier (images data ! i) = kInvalidImageId \<Longrightarrow>
   \<not> (i = 0 \<and> (\<exists>rect. at_index (rectangles data) 0 = Some rect
                \<and> origin rect = (0, 0)
                \<and> extent rect = (static_cast_float (fst (display_dimensions s (display_id data))),
                                  static_cast_float (snd (display_dimensions s (display_id data)))))) \<Longrightarrow>
   \<not> ok"
proof (induction datas arbitrary: s)
  case Nil
  then show ?case by simp
next
  case (Cons d rest)
  from Cons.prems(1) obtain b1 s1 where srd: "SetRenderDataOnDisplay d s = Some (b1, s1)"
    by (auto split: option.splits)
  show ?case
  proof (cases b1)
    case False
    with Cons.prems(1) srd show ?thesis by simp
  next
    case True
    let ?s2 = "(case GetDataToApply (cc_state_machine s1) of
               None \<Rightarrow> s1
             | Some cc_data \<Rightarrow>
                 display_controller_call
                   (DcSetDisplayColorConversion (display_id d) (preoffsets cc_data)
                      (coefficients cc_data) (postoffsets cc_data)) s1)"
    from Cons.prems(1) srd True have r: "set_render_datas rest ?s2 = Some (ok, s')" by simp
    have "data \<noteq> d"
    proof
      assume eq: "data = d"
      from SetRenderDataOnDisplay_solid_color [OF srd [folded eq] Cons.prems(3,4,5,6)] True
      show False by simp
    qed
    with Cons.prems(2) have "data \<in> set rest" by simp
    have "display_dimensions s1 = display_dimensions s"
      using staging_steps_frame [OF SetRenderDataOnDisplay_steps(1) [OF srd]] by simp
    then have "display_dimensions ?s2 = display_dimensions s"
      by (simp add: call_defs split: option.splits)
    with Cons.IH [OF r \<open>data \<in> set rest\<close> Cons.prems(3,4,5)] Cons.prems(6) show ?thesis by simp
  qed
qed

text \<open>
  C8, as amended. When the planner returns for a frame, and a render data of the frame with
  fewer than \<open>2 ^ 32\<close> images has the sentinel identifier at entry \<open>i\<close>, and \<open>i\<close> is not 0 or
  the rectangle of entry 0 does not have origin \<open>(0, 0)\<close> and, as its extent, the dimensions
  of the display converted to \<^verbatim>\<open>float\<close>, then the planner returns \<^verbatim>\<open>false\<close>: it rejects the
  frame. A dimension up to \<open>2 ^ 24\<close> is converted to itself, so that for such a display the
  extent that is accepted is the dimensions of the display.
\<close>

theorem solid_color_accepted_only_full_screen_at_0:
  assumes "SetRenderDatasOnDisplay render_data_list s = Some (ok, s')"
    and "data \<in> set render_data_list"
    and "i < length (images data)" and "length (images data) < 2 ^ 32"
    and "image_identifier (images data ! i) = kInvalidImageId"
    and "\<not> (i = 0 \<and> (\<exists>rect. at_index (rectangles data) 0 = Some rect
                \<and> origin rect = (0, 0)
                \<and> extent rect = (static_cast_float (fst (display_dimensions s (display_id data))),
                                  static_cast_float (snd (display_dimensions s (display_id data))))))"
  shows "\<not> ok
     \<and> (fst (display_dimensions s (display_id data)) \<le> 2 ^ 24 \<longrightarrow>
          static_cast_float (fst (display_dimensions s (display_id data)))
            = real (fst (display_dimensions s (display_id data))))
     \<and> (snd (display_dimensions s (display_id data)) \<le> 2 ^ 24 \<longrightarrow>
          static_cast_float (snd (display_dimensions s (display_id data)))
            = real (snd (display_dimensions s (display_id data))))"
proof -
  have "\<not> ok"
    using assms set_render_datas_solid_color [of render_data_list s ok s' data i]
    by (auto simp: SetRenderDatasOnDisplay_def split: if_splits)
  then show ?thesis by (simp add: static_cast_float_exact)
qed

text \<open>The theorem at a frame whose only entry is a solid color over a part of the display.\<close>

theorem solid_color_accepted_only_full_screen_at_0_witness:
  "length (images example_partial_color_data) < 2 ^ 32
   \<and> image_identifier (images example_partial_color_data ! 0) = kInvalidImageId
   \<and> at_index (rectangles example_partial_color_data) 0 = Some example_partial
   \<and> extent example_partial \<noteq> (1920, 1080)
   \<and> display_dimensions example_compositor 1 = (1920, 1080)
   \<and> static_cast_float 1920 = 1920 \<and> static_cast_float 1080 = 1080
   \<and> (\<exists>s'. SetRenderDatasOnDisplay [example_partial_color_data] example_compositor
             = Some (False, s'))"
proof -
  have h: "0 < length (images example_partial_color_data)"
    "length (images example_partial_color_data) < 2 ^ 32"
    "image_identifier (images example_partial_color_data ! 0) = kInvalidImageId"
    "at_index (rectangles example_partial_color_data) 0 = Some example_partial"
    "extent example_partial \<noteq> (1920, 1080)"
    "display_dimensions example_compositor 1 = (1920, 1080)"
    "display_id example_partial_color_data = 1"
    by (simp_all add: example_defs at_index_def display_dimensions_def)
  have "SetRenderDatasOnDisplay [example_partial_color_data] example_compositor \<noteq> None"
    by (simp add: eval_defs example_defs)
  then obtain ok s' where
    r: "SetRenderDatasOnDisplay [example_partial_color_data] example_compositor = Some (ok, s')"
    by auto
  from solid_color_accepted_only_full_screen_at_0 [OF r _ h(1) h(2) h(3)] h
  have "\<not> ok \<and> static_cast_float 1920 = 1920 \<and> static_cast_float 1080 = 1080"
    by (simp add: static_cast_float_exact)
  with r h show ?thesis by simp
qed

text \<open>
  The extent need not be the dimensions of the display. On a display \<open>16777217\<close> pixels
  wide, \<^verbatim>\<open>static_cast<float>(display_size.x)\<close> is \<open>16777216\<close>, and the planner accepts a solid
  color at entry 0 that is \<open>16777216\<close> wide, one pixel narrower than the display.
\<close>

theorem solid_color_narrower_than_display_accepted:
  "display_dimensions wide_display_example 1 = (16777217, 1080)
   \<and> image_identifier (images example_narrow_color_data ! 0) = kInvalidImageId
   \<and> at_index (rectangles example_narrow_color_data) 0 = Some example_narrow
   \<and> origin example_narrow = (0, 0)
   \<and> extent example_narrow = (16777216, 1080)
   \<and> extent example_narrow \<noteq> (real (fst (display_dimensions wide_display_example 1)),
                               real (snd (display_dimensions wide_display_example 1)))
   \<and> (\<exists>s'. SetRenderDatasOnDisplay [example_narrow_color_data] wide_display_example
             = Some (True, s'))"
proof -
  have h: "display_dimensions wide_display_example 1 = (16777217, 1080)"
    "image_identifier (images example_narrow_color_data ! 0) = kInvalidImageId"
    "at_index (rectangles example_narrow_color_data) 0 = Some example_narrow"
    "origin example_narrow = (0, 0)"
    "extent example_narrow = (16777216, 1080)"
    by (simp_all add: wide_display_example_def example_narrow_color_data_def
          example_narrow_def example_defs at_index_def display_dimensions_def)
  have "\<exists>s'. SetRenderDatasOnDisplay [example_narrow_color_data] wide_display_example
             = Some (True, s')"
    by (simp add: eval_defs example_defs wide_display_example_def
          example_narrow_color_data_def example_narrow_def static_cast_float_16777217)
  with h show ?thesis by simp
qed


section \<open>GPU composition\<close>


lemma gpu_frame_update [simp]:
  "gpu_frame (s\<lparr>cc_state_machine := a\<rparr>) = gpu_frame s"
  "gpu_frame (s\<lparr>display_engine_data_map := b\<rparr>) = gpu_frame s"
  "gpu_frame (s\<lparr>dc_checks := c\<rparr>) = gpu_frame s"
  "gpu_frame (s\<lparr>renderer_log := d\<rparr>) = gpu_frame s"
  "c0 \<noteq> DcApplyConfig \<Longrightarrow> gpu_frame (display_controller_call c0 s) = gpu_frame s"
  by (simp_all add: gpu_frame_def call_defs)

lemma attached_signal_ids_update [simp]:
  "attached_signal_ids (s\<lparr>cc_state_machine := a\<rparr>) = attached_signal_ids s"
  "attached_signal_ids (s\<lparr>display_engine_data_map := b\<rparr>) = attached_signal_ids s"
  "attached_signal_ids (s\<lparr>dc_checks := c\<rparr>) = attached_signal_ids s"
  "attached_signal_ids (s\<lparr>renderer_log := d\<rparr>) = attached_signal_ids s"
  "attached_signal_ids (s\<lparr>image_event_map := e\<rparr>) = attached_signal_ids s"
  "attached_signal_ids (s\<lparr>pending_images_in_config := f\<rparr>) = attached_signal_ids s"
  "attached_signal_ids (s\<lparr>release_fence_manager := g\<rparr>) = attached_signal_ids s"
  "attached_signal_ids (s\<lparr>pending_apply_configs := h\<rparr>) = attached_signal_ids s"
  "attached_signal_ids (s\<lparr>dc_applies := k\<rparr>) = attached_signal_ids s"
  "call_signal_id c0 = None \<Longrightarrow> attached_signal_ids (display_controller_call c0 s) = attached_signal_ids s"
  by (simp_all add: attached_signal_ids_def call_defs)

lemma frame_signal_ids_update [simp]:
  "frame_signal_ids (s\<lparr>cc_state_machine := a\<rparr>) = frame_signal_ids s"
  "frame_signal_ids (s\<lparr>dc_log := b\<rparr>) = frame_signal_ids s"
  "frame_signal_ids (s\<lparr>dc_checks := c\<rparr>) = frame_signal_ids s"
  "frame_signal_ids (s\<lparr>renderer_log := d\<rparr>) = frame_signal_ids s"
  "frame_signal_ids (s\<lparr>image_event_map := e\<rparr>) = frame_signal_ids s"
  "frame_signal_ids (s\<lparr>pending_images_in_config := f\<rparr>) = frame_signal_ids s"
  "frame_signal_ids (s\<lparr>release_fence_manager := g\<rparr>) = frame_signal_ids s"
  "frame_signal_ids (s\<lparr>pending_apply_configs := h\<rparr>) = frame_signal_ids s"
  "frame_signal_ids (s\<lparr>dc_applies := k\<rparr>) = frame_signal_ids s"
  "frame_signal_ids (display_controller_call c0 s) = frame_signal_ids s"
  by (simp_all add: frame_signal_ids_def call_defs)

text \<open>Resetting the two events of a slot keeps the identifiers of the ring.\<close>

lemma frame_signal_ids_reset:
  assumes "display_engine_data_map s d = Some engine_data"
    and "at_index (frame_event_datas engine_data) slot = Some old"
  shows "frame_signal_ids
           (s\<lparr>display_engine_data_map :=
                 (display_engine_data_map s)
                   (d \<mapsto> engine_data
                      \<lparr>curr_vmo := c,
                       frame_event_datas :=
                         (frame_event_datas engine_data)
                           [slot := old\<lparr>wait_event := False, signal_event := False\<rparr>]\<rparr>)\<rparr>)
         = frame_signal_ids s"
proof -
  from assms(2) have "map signal_id ((frame_event_datas engine_data)
                           [slot := old\<lparr>wait_event := False, signal_event := False\<rparr>])
      = map signal_id (frame_event_datas engine_data)"
    by (auto simp: at_index_def map_update list_update_same_conv split: if_splits)
  with assms(1) show ?thesis
    apply (auto simp: frame_signal_ids_def simp del: set_map split: if_splits)
    subgoal for x da engine_dataa
      by (cases "da = d") (auto intro: exI [of _ da] simp del: set_map)
    done
qed


lemma clear_past_cc_state_frame:
  "gpu_frame (clear_past_cc_state data s) = gpu_frame s
   \<and> attached_signal_ids (clear_past_cc_state data s) = attached_signal_ids s
   \<and> frame_signal_ids (clear_past_cc_state data s) = frame_signal_ids s
   \<and> display_engine_data_map (clear_past_cc_state data s) = display_engine_data_map s
   \<and> renderer_requires_protected (clear_past_cc_state data s) = renderer_requires_protected s"
  by (simp add: clear_past_cc_state_def frame_signal_ids_def gpu_frame_def call_defs
        attached_signal_ids_def)

lemma render_into_slot_frame:
  assumes "display_engine_data_map s (display_id data) = Some engine_data"
    and "at_index (frame_event_datas engine_data) slot = Some old"
  shows "gpu_frame (render_into_slot fin data engine_data slot rt old s) = gpu_frame s
   \<and> attached_signal_ids (render_into_slot fin data engine_data slot rt old s) = attached_signal_ids s
   \<and> frame_signal_ids (render_into_slot fin data engine_data slot rt old s) = frame_signal_ids s
   \<and> signal_id old \<in> frame_signal_ids s"
proof -
  from assms(2) have "old \<in> set (frame_event_datas engine_data)"
    by (auto simp: at_index_def split: if_splits)
  with assms(1) have "signal_id old \<in> frame_signal_ids s"
    by (auto simp: frame_signal_ids_def)
  with frame_signal_ids_reset [OF assms] show ?thesis
    by (simp add: render_into_slot_def Let_def renderer_call_def)
qed

lemma CheckConfig_frame:
  "CheckConfig s = (b, s') \<Longrightarrow>
   gpu_frame s' = gpu_frame s \<and> attached_signal_ids s' = attached_signal_ids s
   \<and> frame_signal_ids s' = frame_signal_ids s
   \<and> b = dc_check_result s (dc_checks s)"
  by (auto simp: CheckConfig_def)

lemma gpu_frame_events:
  "gpu_frame s' = gpu_frame s \<Longrightarrow>
   image_event_map s' = image_event_map s \<and> dc_next_event_id s' = dc_next_event_id s"
  by (simp add: gpu_frame_def)

lemma gpu_compose_display_frame:
  assumes "gpu_compose_display fin data s = Some (b, s')"
  shows "gpu_frame s' = gpu_frame s" and "events_wf s \<Longrightarrow> events_wf s'"
proof -
  from assms obtain engine_data where
    ed: "display_engine_data_map s (display_id data) = Some engine_data"
    by (auto simp: gpu_compose_display_def split: option.splits)
  let ?s1 = "clear_past_cc_state data s"
  note f1 = clear_past_cc_state_frame [of data s]
  have "gpu_frame s' = gpu_frame s \<and> (events_wf s \<longrightarrow> events_wf s')"
  proof (cases "vmo_count engine_data = 0")
    case True
    with assms ed have "s' = ?s1" by (simp add: gpu_compose_display_def Let_def)
    with f1 gpu_frame_events [of ?s1 s] show ?thesis
      by (auto intro: events_wf_cong)
  next
    case False
    let ?targets = "(if renderer_requires_protected ?s1 (images data)
                           then protected_render_targets engine_data
                           else render_targets engine_data)"
    from assms ed False obtain rt old layer s4 where
      ai: "at_index ?targets (curr_vmo engine_data) = Some rt"
        "at_index (frame_event_datas engine_data) (curr_vmo engine_data) = Some old"
        "at_index (layers engine_data) 0 = Some layer"
      and al: "ApplyLayerImage layer
                 \<lparr>origin = (0, 0), extent = (real (width rt), real (height rt)),
                  rect_orientation = CCW_0_DEGREES\<rparr>
                 rt (wait_id old) (signal_id old)
                 (SetDisplayLayers (display_id data) [layer]
                    (render_into_slot fin data engine_data (curr_vmo engine_data) rt old ?s1))
               = Some s4"
      and cc: "CheckConfig s4 = (b, s')"
      by (auto simp: gpu_compose_display_def Let_def split: option.splits)
    let ?s2 = "render_into_slot fin data engine_data (curr_vmo engine_data) rt old ?s1"
    let ?s3 = "SetDisplayLayers (display_id data) [layer] ?s2"
    from ed f1 have ed1: "display_engine_data_map ?s1 (display_id data) = Some engine_data" by simp
    note f2 = render_into_slot_frame [OF ed1 ai(2), of fin rt]
    have f3: "gpu_frame ?s3 = gpu_frame ?s2 \<and> attached_signal_ids ?s3 = attached_signal_ids ?s2
              \<and> frame_signal_ids ?s3 = frame_signal_ids ?s2"
      by (simp add: SetDisplayLayers_def)
    note f4 = ApplyLayerImage_frame [OF al]
    note f5 = CheckConfig_frame [OF cc]
    from f1 f2 f3 f4 f5 have g: "gpu_frame s' = gpu_frame s" by simp
    have "events_wf s'" if wf: "events_wf s"
    proof -
      from wf f1 gpu_frame_events [of ?s1 s] have w1: "events_wf ?s1"
        by (auto intro: events_wf_cong)
      from w1 f2 gpu_frame_events [of ?s2 ?s1] have w2: "events_wf ?s2"
        by (auto intro: events_wf_cong)
      from w2 f3 gpu_frame_events [of ?s3 ?s2] have w3: "events_wf ?s3"
        by (auto intro: events_wf_cong)
      from f1 f2 f3 have sg: "signal_id old \<in> frame_signal_ids ?s3" by simp
      from f4 have "frame_signal_ids s4 = frame_signal_ids ?s3" by (simp add: frame_signal_ids_def)
      with f4 sg have w4: "events_wf s4"
        by (intro events_wf_attach [OF w3, of s4 "signal_id old"]) auto
      from w4 f5 gpu_frame_events [of s' s4] show ?thesis by (auto intro: events_wf_cong)
    qed
    with g show ?thesis by simp
  qed
  then show "gpu_frame s' = gpu_frame s" and "events_wf s \<Longrightarrow> events_wf s'" by simp_all
qed

lemma gpu_compose_displays_frame:
  "gpu_compose_displays datas s = Some (b, s') \<Longrightarrow>
   gpu_frame s' = gpu_frame s \<and> (events_wf s \<longrightarrow> events_wf s')"
proof (induction datas arbitrary: s)
  case Nil
  then show ?case by simp
next
  case (Cons data rest)
  from Cons.prems obtain b1 s1 where g: "gpu_compose_display (rest = []) data s = Some (b1, s1)"
    by (auto split: option.splits)
  note f = gpu_compose_display_frame [OF g]
  show ?case
  proof (cases b1)
    case False
    with Cons.prems g f show ?thesis by simp
  next
    case True
    with Cons.prems g have "gpu_compose_displays rest s1 = Some (b, s')" by simp
    from Cons.IH [OF this] f show ?thesis by simp
  qed
qed

lemma PerformGpuComposition_frame:
  assumes "PerformGpuComposition frame t datas fences cb s = Some (b, s')"
  shows "gpu_frame (s'\<lparr>release_fence_manager := release_fence_manager s\<rparr>) = gpu_frame s"
    and "release_fence_manager s' =
           release_fence_manager s @ (if b then [RfmOnGpuCompositedFrame frame fences cb] else [])"
    and "events_wf s \<Longrightarrow> events_wf s'"
proof -
  from assms obtain s1 where g: "gpu_compose_displays datas s = Some (b, s1)"
    and s': "s' = (if b then s1\<lparr>release_fence_manager :=
                     release_fence_manager s1 @ [RfmOnGpuCompositedFrame frame fences cb]\<rparr> else s1)"
    by (auto simp: PerformGpuComposition_def split: option.splits bool.splits)
  note f = gpu_compose_displays_frame [OF g]
  from f s' show "gpu_frame (s'\<lparr>release_fence_manager := release_fence_manager s\<rparr>) = gpu_frame s"
    by (auto simp: gpu_frame_def)
  from f s' show "release_fence_manager s' =
           release_fence_manager s @ (if b then [RfmOnGpuCompositedFrame frame fences cb] else [])"
    by (auto simp: gpu_frame_def)
  show "events_wf s'" if "events_wf s"
  proof -
    from that f have "events_wf s1" by simp
    with s' show ?thesis by (auto intro: events_wf_cong)
  qed
qed

section \<open>RenderFrame\<close>

text \<open>The unsignal loop changes the image events, and nothing else.\<close>

lemma unsignal_image_events_only_events:
  "unsignal_image_events ids s = s\<lparr>image_event_map := image_event_map (unsignal_image_events ids s)\<rparr>"
proof (induction ids arbitrary: s)
  case Nil
  show ?case by simp
next
  case (Cons i rest)
  obtain ev s1 where ie: "image_event_at i s = (ev, s1)" by (cases "image_event_at i s")
  then have s1: "s1 = s\<lparr>image_event_map := image_event_map s1\<rparr>"
    by (auto simp: image_event_at_def split: option.splits)
  let ?s2 = "s1\<lparr>image_event_map := (image_event_map s1)(i \<mapsto> ev\<lparr>image_signal_event := False\<rparr>)\<rparr>"
  from ie have u: "unsignal_image_events (i # rest) s = unsignal_image_events rest ?s2" by simp
  have "?s2 = s\<lparr>image_event_map := image_event_map ?s2\<rparr>"
    by (subst s1) simp
  with Cons.IH [of ?s2] u show ?case
    by (metis (no_types, lifting) compositor.update_convs(6) compositor.surjective)
qed


lemma unsignal_image_events_map:
  "set ids \<subseteq> dom (image_event_map s) \<Longrightarrow>
   image_event_map (unsignal_image_events ids s) i =
     (if i \<in> set ids
      then map_option (\<lambda>ev. ev\<lparr>image_signal_event := False\<rparr>) (image_event_map s i)
      else image_event_map s i)"
proof (induction ids arbitrary: s)
  case Nil
  show ?case by simp
next
  case (Cons i0 rest)
  then obtain ev where ev: "image_event_map s i0 = Some ev" by auto
  let ?s2 = "s\<lparr>image_event_map := (image_event_map s)(i0 \<mapsto> ev\<lparr>image_signal_event := False\<rparr>)\<rparr>"
  from image_event_at_present [OF ev]
  have u: "unsignal_image_events (i0 # rest) s = unsignal_image_events rest ?s2" by simp
  from Cons.prems have "set rest \<subseteq> dom (image_event_map ?s2)" by auto
  from Cons.IH [OF this] u ev show ?case by auto
qed

text \<open>The three ways through \<^verbatim>\<open>RenderFrame\<close>.\<close>

lemma RenderFrame_cases:
  assumes "RenderFrame frame t datas fences cb s = Some s'"
  obtains
    (direct) s1 s2 where
      "SetRenderDatasOnDisplay datas (DiscardConfig s) = Some (True, s1)"
      "\<not> kDisableDisplayComposition s1" "CheckConfig s1 = (True, s2)"
      "s' = apply_and_enqueue frame
              ((unsignal_image_events (pending_images_in_config s2)
                  (s2\<lparr>cc_state_machine := SetApplyConfigSucceeded (cc_state_machine s2)\<rparr>))
                 \<lparr>release_fence_manager :=
                    release_fence_manager s2 @ [RfmOnDirectScanoutFrame frame fences cb]\<rparr>)"
  | (gpu) hardware_ok s1 s2 gpu_ok s3 where
      "SetRenderDatasOnDisplay datas (DiscardConfig s) = Some (hardware_ok, s1)"
      "fallback_to_gpu_composition (\<not> hardware_ok) s1 = (True, s2)"
      "PerformGpuComposition frame t datas fences cb (DiscardConfig s2) = Some (gpu_ok, s3)"
      "s' = (if gpu_ok then apply_and_enqueue frame s3 else s3)"
proof -
  from assms obtain hardware_ok s1 where
    p: "SetRenderDatasOnDisplay datas (DiscardConfig s) = Some (hardware_ok, s1)"
    by (auto simp: RenderFrame_def split: option.splits)
  obtain fb s2 where f: "fallback_to_gpu_composition (\<not> hardware_ok) s1 = (fb, s2)"
    by (cases "fallback_to_gpu_composition (\<not> hardware_ok) s1")
  show ?thesis
  proof (cases fb)
    case True
    with assms p f obtain gpu_ok s3 where
      g: "PerformGpuComposition frame t datas fences cb (DiscardConfig s2) = Some (gpu_ok, s3)"
      by (auto simp: RenderFrame_def split: option.splits)
    with assms p f True have "s' = (if gpu_ok then apply_and_enqueue frame s3 else s3)"
      by (auto simp: RenderFrame_def)
    with p f True g show ?thesis by (auto intro: gpu)
  next
    case False
    with f have h: "hardware_ok" "\<not> kDisableDisplayComposition s1" "CheckConfig s1 = (True, s2)"
      by (auto simp: fallback_to_gpu_composition_def split: if_splits prod.splits)
    from assms p f False
    have "s' = apply_and_enqueue frame
              ((unsignal_image_events (pending_images_in_config s2)
                  (s2\<lparr>cc_state_machine := SetApplyConfigSucceeded (cc_state_machine s2)\<rparr>))
                 \<lparr>release_fence_manager :=
                    release_fence_manager s2 @ [RfmOnDirectScanoutFrame frame fences cb]\<rparr>)"
      by (simp add: RenderFrame_def)
    with p h show ?thesis by (auto intro: direct)
  qed
qed

lemma fallback_to_gpu_composition_True:
  "fallback_to_gpu_composition hardware_failure s1 = (True, s2) \<Longrightarrow>
   (hardware_failure \<or> kDisableDisplayComposition s1 \<or> \<not> dc_check_result s1 (dc_checks s1))
   \<and> gpu_frame s2 = gpu_frame s1 \<and> planner_frame (s2\<lparr>dc_checks := dc_checks s1\<rparr>) = planner_frame s1
   \<and> image_event_map s2 = image_event_map s1
   \<and> attached_signal_ids s2 = attached_signal_ids s1
   \<and> frame_signal_ids s2 = frame_signal_ids s1"
  by (auto simp: fallback_to_gpu_composition_def CheckConfig_def planner_frame_def call_defs
        gpu_frame_def attached_signal_ids_def split: if_splits)

lemma DiscardConfig_frame:
  "planner_frame (DiscardConfig s) = planner_frame s
   \<and> gpu_frame ((DiscardConfig s)\<lparr>pending_images_in_config := pending_images_in_config s\<rparr>)
       = gpu_frame s
   \<and> image_event_map (DiscardConfig s) = image_event_map s
   \<and> pending_images_in_config (DiscardConfig s) = []
   \<and> display_dimensions (DiscardConfig s) = display_dimensions s
   \<and> attached_signal_ids (DiscardConfig s) = attached_signal_ids s
   \<and> frame_signal_ids (DiscardConfig s) = frame_signal_ids s
   \<and> dc_next_event_id (DiscardConfig s) = dc_next_event_id s"
  by (simp add: DiscardConfig_def planner_frame_def gpu_frame_def call_defs
        attached_signal_ids_def)

lemma apply_and_enqueue_frame:
  "release_fence_manager (apply_and_enqueue frame s) = release_fence_manager s
   \<and> renderer_log (apply_and_enqueue frame s) = renderer_log s
   \<and> image_event_map (apply_and_enqueue frame s) = image_event_map s
   \<and> pending_images_in_config (apply_and_enqueue frame s) = pending_images_in_config s
   \<and> pending_apply_configs (apply_and_enqueue frame s) =
       pending_apply_configs s @ [\<lparr>config_stamp = dc_stamp s (dc_applies s), frame_number = frame\<rparr>]
   \<and> dc_applies (apply_and_enqueue frame s) = Suc (dc_applies s)
   \<and> count_list (dc_log (apply_and_enqueue frame s)) DcApplyConfig
       = Suc (count_list (dc_log s) DcApplyConfig)
   \<and> attached_signal_ids (apply_and_enqueue frame s) = attached_signal_ids s
   \<and> frame_signal_ids (apply_and_enqueue frame s) = frame_signal_ids s
   \<and> dc_next_event_id (apply_and_enqueue frame s) = dc_next_event_id s"
  by (simp add: apply_and_enqueue_def ApplyConfig_def call_defs attached_signal_ids_def)


lemma planner_frame_fields:
  "planner_frame s' = planner_frame s \<Longrightarrow>
   release_fence_manager s' = release_fence_manager s
   \<and> pending_apply_configs s' = pending_apply_configs s
   \<and> kDisableDisplayComposition s' = kDisableDisplayComposition s
   \<and> dc_check_result s' = dc_check_result s \<and> dc_checks s' = dc_checks s
   \<and> dc_stamp s' = dc_stamp s \<and> dc_applies s' = dc_applies s
   \<and> renderer_log s' = renderer_log s
   \<and> count_list (dc_log s') DcApplyConfig = count_list (dc_log s) DcApplyConfig"
  by (simp add: planner_frame_def)

lemma gpu_frame_fields:
  "gpu_frame s' = gpu_frame s \<Longrightarrow>
   release_fence_manager s' = release_fence_manager s
   \<and> pending_apply_configs s' = pending_apply_configs s
   \<and> dc_stamp s' = dc_stamp s \<and> dc_applies s' = dc_applies s
   \<and> image_event_map s' = image_event_map s
   \<and> pending_images_in_config s' = pending_images_in_config s
   \<and> count_list (dc_log s') DcApplyConfig = count_list (dc_log s) DcApplyConfig"
  by (simp add: gpu_frame_def)

text \<open>What the planner keeps, from the state in which \<^verbatim>\<open>RenderFrame\<close> starts.\<close>

lemma planner_keeps:
  assumes "SetRenderDatasOnDisplay datas (DiscardConfig s) = Some (hardware_ok, s1)"
  shows "release_fence_manager s1 = release_fence_manager s"
    and "pending_apply_configs s1 = pending_apply_configs s"
    and "kDisableDisplayComposition s1 = kDisableDisplayComposition s"
    and "dc_check_result s1 (dc_checks s1) = dc_check_result s (dc_checks s)"
    and "dc_stamp s1 = dc_stamp s" and "dc_applies s1 = dc_applies s"
    and "renderer_log s1 = renderer_log s"
    and "count_list (dc_log s1) DcApplyConfig = count_list (dc_log s) DcApplyConfig"
    and "events_kept s s1" and "events_new_signaled s s1"
    and "set (pending_images_in_config s1) \<subseteq> dom (image_event_map s1)"
proof -
  from SetRenderDatasOnDisplay_steps [OF assms] have st: "staging_step\<^sup>*\<^sup>* (DiscardConfig s) s1"
    by simp
  note f = staging_steps_frame [OF st] and d = DiscardConfig_frame [of s]
  from f d have pf: "planner_frame s1 = planner_frame s" by simp
  note pf = planner_frame_fields [OF pf]
  from pf show "release_fence_manager s1 = release_fence_manager s"
    and "pending_apply_configs s1 = pending_apply_configs s"
    and "kDisableDisplayComposition s1 = kDisableDisplayComposition s"
    and "dc_check_result s1 (dc_checks s1) = dc_check_result s (dc_checks s)"
    and "dc_stamp s1 = dc_stamp s" and "dc_applies s1 = dc_applies s"
    and "renderer_log s1 = renderer_log s"
    and "count_list (dc_log s1) DcApplyConfig = count_list (dc_log s) DcApplyConfig"
    by simp_all
  from f d show "events_kept s s1" and "events_new_signaled s s1"
    by (simp_all add: events_kept_def events_new_signaled_def)
  from d have "set (pending_images_in_config (DiscardConfig s)) \<subseteq> dom (image_event_map (DiscardConfig s))"
    by simp
  from staging_steps_pending_dom [OF st this]
  show "set (pending_images_in_config s1) \<subseteq> dom (image_event_map s1)" .
qed

text \<open>
  C1. Let the planner return \<open>hardware_ok\<close> for the frame. When planning succeeded, the
  toggle is off and the display controller accepts the configuration, the frame is a
  direct-scanout frame: the release-fence manager receives \<open>OnDirectScanoutFrame\<close> with
  the callback, the renderer is not called, and the applied configuration is enqueued.
  In every other case \<^verbatim>\<open>PerformGpuComposition\<close> runs. When it succeeds, the release-fence
  manager receives \<open>OnGpuCompositedFrame\<close> with the callback and the applied configuration
  is enqueued. When it fails, \<^verbatim>\<open>RenderFrame\<close> returns its state: the release-fence manager
  has received nothing (the callback and the release fences are dropped), no
  configuration was applied, and nothing was enqueued.
\<close>

theorem RenderFrame_falls_back_to_gpu:
  assumes "SetRenderDatasOnDisplay datas (DiscardConfig s) = Some (hardware_ok, s1)"
    and "RenderFrame frame t datas fences cb s = Some s'"
  shows
    "(hardware_ok \<and> \<not> kDisableDisplayComposition s \<and> dc_check_result s (dc_checks s) \<longrightarrow>
        release_fence_manager s' =
          release_fence_manager s @ [RfmOnDirectScanoutFrame frame fences cb]
        \<and> renderer_log s' = renderer_log s
        \<and> pending_apply_configs s' =
            pending_apply_configs s
              @ [\<lparr>config_stamp = dc_stamp s (dc_applies s), frame_number = frame\<rparr>])
     \<and> (\<not> (hardware_ok \<and> \<not> kDisableDisplayComposition s \<and> dc_check_result s (dc_checks s)) \<longrightarrow>
        (\<exists>s2 gpu_ok s3.
            fallback_to_gpu_composition (\<not> hardware_ok) s1 = (True, s2)
            \<and> PerformGpuComposition frame t datas fences cb (DiscardConfig s2) = Some (gpu_ok, s3)
            \<and> (gpu_ok \<longrightarrow>
                 release_fence_manager s' =
                   release_fence_manager s @ [RfmOnGpuCompositedFrame frame fences cb]
                 \<and> pending_apply_configs s' =
                     pending_apply_configs s
                       @ [\<lparr>config_stamp = dc_stamp s (dc_applies s), frame_number = frame\<rparr>])
            \<and> (\<not> gpu_ok \<longrightarrow>
                 s' = s3
                 \<and> release_fence_manager s' = release_fence_manager s
                 \<and> pending_apply_configs s' = pending_apply_configs s
                 \<and> dc_applies s' = dc_applies s
                 \<and> count_list (dc_log s') DcApplyConfig = count_list (dc_log s) DcApplyConfig)))"
proof -
  note k = planner_keeps [OF assms(1)]
  from assms(2) show ?thesis
  proof (cases rule: RenderFrame_cases)
    case (direct s1' s2)
    with assms(1) have eq: "hardware_ok" "s1' = s1" by simp_all
    from direct(3) eq have c: "dc_check_result s1 (dc_checks s1)"
      and s2: "s2 = (display_controller_call (DcCheckConfig False) s1)\<lparr>dc_checks := Suc (dc_checks s1)\<rparr>"
      by (auto simp: CheckConfig_def)
    let ?u = "unsignal_image_events (pending_images_in_config s2)
                (s2\<lparr>cc_state_machine := SetApplyConfigSucceeded (cc_state_machine s2)\<rparr>)"
    have u: "release_fence_manager ?u = release_fence_manager s2"
      "renderer_log ?u = renderer_log s2" "pending_apply_configs ?u = pending_apply_configs s2"
      "dc_stamp ?u = dc_stamp s2" "dc_applies ?u = dc_applies s2"
      by (subst unsignal_image_events_only_events, simp)+
    from direct(4) u s2 k apply_and_enqueue_frame
    have "release_fence_manager s' =
          release_fence_manager s @ [RfmOnDirectScanoutFrame frame fences cb]
        \<and> renderer_log s' = renderer_log s
        \<and> pending_apply_configs s' =
            pending_apply_configs s
              @ [\<lparr>config_stamp = dc_stamp s (dc_applies s), frame_number = frame\<rparr>]"
      by (simp add: apply_and_enqueue_def ApplyConfig_def call_defs)
    with eq c k direct(2) show ?thesis by simp
  next
    case (gpu hardware_ok' s1' s2 gpu_ok s3)
    with assms(1) have eq: "hardware_ok' = hardware_ok" "s1' = s1" by simp_all
    note fb = fallback_to_gpu_composition_True [OF gpu(2) [unfolded eq]]
    from fb k have cond: "\<not> (hardware_ok \<and> \<not> kDisableDisplayComposition s \<and> dc_check_result s (dc_checks s))"
      by auto
    note g = PerformGpuComposition_frame [OF gpu(3)]
    from gpu_frame_fields [OF g(1)] gpu_frame_fields [of s2 s1] fb k
    have f3: "pending_apply_configs s3 = pending_apply_configs s"
      "dc_stamp s3 = dc_stamp s" "dc_applies s3 = dc_applies s"
      "count_list (dc_log s3) DcApplyConfig = count_list (dc_log s) DcApplyConfig"
      by (simp_all add: DiscardConfig_def call_defs)
    from g(2) gpu_frame_fields [of s2 s1] fb k
    have r3: "release_fence_manager s3 =
           release_fence_manager s @ (if gpu_ok then [RfmOnGpuCompositedFrame frame fences cb] else [])"
      by (simp add: DiscardConfig_def call_defs)
    from gpu(4) f3 r3 apply_and_enqueue_frame [of frame s3]
    have "(gpu_ok \<longrightarrow>
                 release_fence_manager s' =
                   release_fence_manager s @ [RfmOnGpuCompositedFrame frame fences cb]
                 \<and> pending_apply_configs s' =
                     pending_apply_configs s
                       @ [\<lparr>config_stamp = dc_stamp s (dc_applies s), frame_number = frame\<rparr>])
            \<and> (\<not> gpu_ok \<longrightarrow>
                 s' = s3
                 \<and> release_fence_manager s' = release_fence_manager s
                 \<and> pending_apply_configs s' = pending_apply_configs s
                 \<and> dc_applies s' = dc_applies s
                 \<and> count_list (dc_log s') DcApplyConfig = count_list (dc_log s) DcApplyConfig)"
      by simp
    with cond gpu(2,3) eq show ?thesis by blast
  qed
qed


lemma RenderFrame_image_events:
  assumes "SetRenderDatasOnDisplay datas (DiscardConfig s) = Some (hardware_ok, s1)"
    and "RenderFrame frame t datas fences cb s = Some s'"
  shows
    "events_kept s s1 \<and> events_new_signaled s s1
     \<and> (hardware_ok \<and> \<not> kDisableDisplayComposition s \<and> dc_check_result s (dc_checks s) \<longrightarrow>
          pending_images_in_config s' = pending_images_in_config s1
          \<and> (\<forall>i. image_event_map s' i =
                 (if i \<in> set (pending_images_in_config s1)
                  then map_option (\<lambda>ev. ev\<lparr>image_signal_event := False\<rparr>) (image_event_map s1 i)
                  else image_event_map s1 i)))
     \<and> (\<not> (hardware_ok \<and> \<not> kDisableDisplayComposition s \<and> dc_check_result s (dc_checks s)) \<longrightarrow>
          pending_images_in_config s' = [] \<and> image_event_map s' = image_event_map s1)"
proof -
  note k = planner_keeps [OF assms(1)]
  from assms(2) have
    "(hardware_ok \<and> \<not> kDisableDisplayComposition s \<and> dc_check_result s (dc_checks s) \<longrightarrow>
          pending_images_in_config s' = pending_images_in_config s1
          \<and> (\<forall>i. image_event_map s' i =
                 (if i \<in> set (pending_images_in_config s1)
                  then map_option (\<lambda>ev. ev\<lparr>image_signal_event := False\<rparr>) (image_event_map s1 i)
                  else image_event_map s1 i)))
     \<and> (\<not> (hardware_ok \<and> \<not> kDisableDisplayComposition s \<and> dc_check_result s (dc_checks s)) \<longrightarrow>
          pending_images_in_config s' = [] \<and> image_event_map s' = image_event_map s1)"
  proof (cases rule: RenderFrame_cases)
    case (direct s1' s2)
    with assms(1) have eq: "hardware_ok" "s1' = s1" by simp_all
    from direct(3) eq have c: "dc_check_result s1 (dc_checks s1)"
      and s2: "s2 = (display_controller_call (DcCheckConfig False) s1)\<lparr>dc_checks := Suc (dc_checks s1)\<rparr>"
      by (auto simp: CheckConfig_def)
    let ?s3 = "s2\<lparr>cc_state_machine := SetApplyConfigSucceeded (cc_state_machine s2)\<rparr>"
    let ?u = "unsignal_image_events (pending_images_in_config s2) ?s3"
    from s2 have e2: "image_event_map ?s3 = image_event_map s1"
      "pending_images_in_config s2 = pending_images_in_config s1"
      by (simp_all add: call_defs)
    with k(11) have "set (pending_images_in_config s2) \<subseteq> dom (image_event_map ?s3)" by simp
    note m = unsignal_image_events_map [OF this]
    have pu: "pending_images_in_config ?u = pending_images_in_config s2"
      by (subst unsignal_image_events_only_events) simp
    from direct(4) m e2 pu apply_and_enqueue_frame
    have "pending_images_in_config s' = pending_images_in_config s1
          \<and> (\<forall>i. image_event_map s' i =
                 (if i \<in> set (pending_images_in_config s1)
                  then map_option (\<lambda>ev. ev\<lparr>image_signal_event := False\<rparr>) (image_event_map s1 i)
                  else image_event_map s1 i))"
      by simp
    with eq c k direct(2) show ?thesis by simp
  next
    case (gpu hardware_ok' s1' s2 gpu_ok s3)
    with assms(1) have eq: "hardware_ok' = hardware_ok" "s1' = s1" by simp_all
    note fb = fallback_to_gpu_composition_True [OF gpu(2) [unfolded eq]]
    from fb k have cond: "\<not> (hardware_ok \<and> \<not> kDisableDisplayComposition s \<and> dc_check_result s (dc_checks s))"
      by auto
    note g = PerformGpuComposition_frame [OF gpu(3)]
    from gpu_frame_fields [OF g(1)] fb
    have "pending_images_in_config s3 = [] \<and> image_event_map s3 = image_event_map s1"
      by (simp add: DiscardConfig_def call_defs)
    with gpu(4) apply_and_enqueue_frame [of frame s3]
    have "pending_images_in_config s' = [] \<and> image_event_map s' = image_event_map s1"
      by simp
    with cond show ?thesis by blast
  qed
  with k(9,10) show ?thesis by simp
qed


text \<open>
  C4. Let the planner return \<open>hardware_ok\<close> and the state \<open>s1\<close>, in which
  \<^verbatim>\<open>pending_images_in_config_\<close> holds the images it recorded. When planning succeeded,
  the toggle is off and \<^verbatim>\<open>CheckConfig\<close> succeeds, the frame ends with the event of every
  recorded image unsignaled and with every other image event as the planner left it. In
  every other case the frame ends with the recorded identifiers discarded, with every image
  event of the initial state as it was, and with every other image event signaled. So an
  image event that was signaled before the frame and is not signaled after it means that
  \<^verbatim>\<open>CheckConfig\<close> succeeded on the planned configuration.
\<close>

theorem image_events_unsignaled_only_on_direct_scanout:
  assumes "SetRenderDatasOnDisplay datas (DiscardConfig s) = Some (hardware_ok, s1)"
    and "RenderFrame frame t datas fences cb s = Some s'"
  shows
    "(hardware_ok \<and> \<not> kDisableDisplayComposition s \<and> dc_check_result s (dc_checks s) \<longrightarrow>
        (\<forall>i \<in> set (pending_images_in_config s1).
            \<exists>ev. image_event_map s' i = Some ev \<and> \<not> image_signal_event ev)
        \<and> (\<forall>i. i \<notin> set (pending_images_in_config s1) \<longrightarrow>
               image_event_map s' i = image_event_map s1 i))
     \<and> (\<not> (hardware_ok \<and> \<not> kDisableDisplayComposition s \<and> dc_check_result s (dc_checks s)) \<longrightarrow>
        pending_images_in_config s' = []
        \<and> events_kept s s' \<and> events_new_signaled s s')
     \<and> ((\<exists>i ev ev'. image_event_map s i = Some ev \<and> image_signal_event ev
            \<and> image_event_map s' i = Some ev' \<and> \<not> image_signal_event ev') \<longrightarrow>
        hardware_ok \<and> \<not> kDisableDisplayComposition s \<and> dc_check_result s (dc_checks s))"
proof -
  note e = RenderFrame_image_events [OF assms]
  note k = planner_keeps [OF assms(1)]
  let ?direct = "hardware_ok \<and> \<not> kDisableDisplayComposition s \<and> dc_check_result s (dc_checks s)"
  have a: "(\<forall>i \<in> set (pending_images_in_config s1).
              \<exists>ev. image_event_map s' i = Some ev \<and> \<not> image_signal_event ev)
           \<and> (\<forall>i. i \<notin> set (pending_images_in_config s1) \<longrightarrow>
                 image_event_map s' i = image_event_map s1 i)" if ?direct
  proof -
    from e that have m: "\<And>i. image_event_map s' i =
                 (if i \<in> set (pending_images_in_config s1)
                  then map_option (\<lambda>ev. ev\<lparr>image_signal_event := False\<rparr>) (image_event_map s1 i)
                  else image_event_map s1 i)"
      by blast
    have "\<exists>ev. image_event_map s' i = Some ev \<and> \<not> image_signal_event ev"
      if "i \<in> set (pending_images_in_config s1)" for i
    proof -
      from that k(11) obtain ev where "image_event_map s1 i = Some ev" by auto
      with m [of i] that show ?thesis by simp
    qed
    with m show ?thesis by simp
  qed
  have b: "pending_images_in_config s' = [] \<and> events_kept s s' \<and> events_new_signaled s s'"
    if "\<not> ?direct"
  proof -
    from e that have "pending_images_in_config s' = []" "image_event_map s' = image_event_map s1"
      by blast+
    with e show ?thesis by (simp add: events_kept_def events_new_signaled_def)
  qed
  have c: ?direct
    if "\<exists>i ev ev'. image_event_map s i = Some ev \<and> image_signal_event ev
            \<and> image_event_map s' i = Some ev' \<and> \<not> image_signal_event ev'"
  proof (rule ccontr)
    assume "\<not> ?direct"
    from b [OF this] that show False by (auto simp: events_kept_def)
  qed
  from a b c show ?thesis by blast
qed

section \<open>The theorems on the example frames\<close>

lemmas import_defs = ImportBufferCollection_def import_display_leg_def
        ImportBufferImage_def determine_display_support_def DetermineDisplaySupportFor_def
        IsValidBufferImage_def kInvalidId_def IsYUV_def example_token_def
        imported_image_example_def imported_collection_example_def

lemma example_planned_eq:
  "SetRenderDatasOnDisplay [example_full_color_data] (DiscardConfig example_compositor)
     = Some (True, example_planned)"
  unfolding example_planned_def by (simp add: eval_defs example_defs)

lemma example_direct_frame_eq:
  "RenderFrame 1 0 [example_full_color_data] [] 0 example_compositor = Some example_direct_frame"
  unfolding example_direct_frame_def by (simp add: eval_defs example_defs)

lemma refusing_planned_eq:
  "SetRenderDatasOnDisplay [example_full_color_data] (DiscardConfig refusing_example)
     = Some (True, refusing_planned)"
  unfolding refusing_planned_def refusing_example_def by (simp add: eval_defs example_defs)

lemma example_dropped_frame_eq:
  "RenderFrame 1 0 [example_full_color_data] [] 0 refusing_example = Some example_dropped_frame"
  unfolding example_dropped_frame_def refusing_example_def by (simp add: eval_defs example_defs)

lemma example_image_frame_eq:
  "RenderFrame 1 0 [example_image_data] [] 0 imported_image_example = Some example_image_frame"
  unfolding example_image_frame_def by (simp add: eval_defs example_defs import_defs)




text \<open>
  The theorem at a full-screen solid color: on the example compositor the frame is a
  direct-scanout frame; with a display controller that refuses every configuration the
  frame is dropped.
\<close>

theorem RenderFrame_falls_back_to_gpu_witness:
  "\<not> kDisableDisplayComposition example_compositor
   \<and> dc_check_result example_compositor (dc_checks example_compositor)
   \<and> SetRenderDatasOnDisplay [example_full_color_data] (DiscardConfig example_compositor)
       = Some (True, example_planned)
   \<and> RenderFrame 1 0 [example_full_color_data] [] 0 example_compositor = Some example_direct_frame
   \<and> release_fence_manager example_direct_frame = [RfmOnDirectScanoutFrame 1 [] 0]
   \<and> renderer_log example_direct_frame = []
   \<and> pending_apply_configs example_direct_frame = [\<lparr>config_stamp = 1, frame_number = 1\<rparr>]
   \<and> \<not> dc_check_result refusing_example (dc_checks refusing_example)
   \<and> RenderFrame 1 0 [example_full_color_data] [] 0 refusing_example = Some example_dropped_frame
   \<and> release_fence_manager example_dropped_frame = []
   \<and> pending_apply_configs example_dropped_frame = []
   \<and> count_list (dc_log example_dropped_frame) DcApplyConfig = 0"
proof -
  have h: "\<not> kDisableDisplayComposition example_compositor"
    "dc_check_result example_compositor (dc_checks example_compositor)"
    "release_fence_manager example_compositor = []" "renderer_log example_compositor = []"
    "pending_apply_configs example_compositor = []"
    "dc_stamp example_compositor (dc_applies example_compositor) = 1"
    "\<not> dc_check_result refusing_example (dc_checks refusing_example)"
    "release_fence_manager refusing_example = []" "pending_apply_configs refusing_example = []"
    "count_list (dc_log refusing_example) DcApplyConfig = 0"
    by (simp_all add: example_compositor_def refusing_example_def)
  note t1 = RenderFrame_falls_back_to_gpu [OF example_planned_eq example_direct_frame_eq]
  from t1 h have d: "release_fence_manager example_direct_frame = [RfmOnDirectScanoutFrame 1 [] 0]
     \<and> renderer_log example_direct_frame = []
     \<and> pending_apply_configs example_direct_frame = [\<lparr>config_stamp = 1, frame_number = 1\<rparr>]"
    by simp
  note t2 = RenderFrame_falls_back_to_gpu [OF refusing_planned_eq example_dropped_frame_eq]
  from t2 h obtain gpu_ok where
    g: "gpu_ok \<longrightarrow> release_fence_manager example_dropped_frame = [RfmOnGpuCompositedFrame 1 [] 0]"
       "\<not> gpu_ok \<longrightarrow> release_fence_manager example_dropped_frame = []
          \<and> pending_apply_configs example_dropped_frame = []
          \<and> count_list (dc_log example_dropped_frame) DcApplyConfig = 0"
    by auto
  have "release_fence_manager example_dropped_frame = []"
    unfolding example_dropped_frame_def refusing_example_def
    by (simp add: eval_defs example_defs)
  with g have "release_fence_manager example_dropped_frame = []
          \<and> pending_apply_configs example_dropped_frame = []
          \<and> count_list (dc_log example_dropped_frame) DcApplyConfig = 0"
    by auto
  with d h example_planned_eq example_direct_frame_eq example_dropped_frame_eq show ?thesis
    by simp
qed


text \<open>
  The theorem at a full-screen solid color: the direct-scanout frame leaves the event of the
  recorded sentinel image unsignaled; the dropped frame discards the recorded identifier
  and leaves the new event signaled.
\<close>

theorem image_events_unsignaled_only_on_direct_scanout_witness:
  "pending_images_in_config example_planned = [kInvalidImageId]
   \<and> (\<exists>ev. image_event_map example_direct_frame kInvalidImageId = Some ev
          \<and> \<not> image_signal_event ev)
   \<and> pending_images_in_config refusing_planned = [kInvalidImageId]
   \<and> pending_images_in_config example_dropped_frame = []
   \<and> events_new_signaled refusing_example example_dropped_frame"
proof -
  have h: "\<not> kDisableDisplayComposition example_compositor"
    "dc_check_result example_compositor (dc_checks example_compositor)"
    "\<not> dc_check_result refusing_example (dc_checks refusing_example)"
    by (simp_all add: example_compositor_def refusing_example_def)
  have p: "pending_images_in_config example_planned = [kInvalidImageId]"
    unfolding example_planned_def by (simp add: eval_defs example_defs)
  have p2: "pending_images_in_config refusing_planned = [kInvalidImageId]"
    unfolding refusing_planned_def refusing_example_def by (simp add: eval_defs example_defs)
  note t1 = image_events_unsignaled_only_on_direct_scanout
              [OF example_planned_eq example_direct_frame_eq]
  from t1 h p have d: "\<exists>ev. image_event_map example_direct_frame kInvalidImageId = Some ev
          \<and> \<not> image_signal_event ev"
    by simp
  note t2 = image_events_unsignaled_only_on_direct_scanout
              [OF refusing_planned_eq example_dropped_frame_eq]
  from t2 h have "pending_images_in_config example_dropped_frame = []
   \<and> events_new_signaled refusing_example example_dropped_frame"
    by simp
  with p p2 d show ?thesis by simp
qed


section \<open>The event of the sentinel image\<close>











lemma attached_signal_ids_update_more [simp]:
  "attached_signal_ids (s\<lparr>sysmem_log := a\<rparr>) = attached_signal_ids s"
  "attached_signal_ids (s\<lparr>display_buffer_collection_ptrs := b\<rparr>) = attached_signal_ids s"
  "attached_signal_ids (s\<lparr>buffer_collection_supports_display := c\<rparr>) = attached_signal_ids s"
  "attached_signal_ids (s\<lparr>buffer_collection_pixel_format := d\<rparr>) = attached_signal_ids s"
  by (simp_all add: attached_signal_ids_def)

lemma display_controller_call_fields [simp]:
  "image_event_map (display_controller_call c0 s) = image_event_map s"
  "display_engine_data_map (display_controller_call c0 s) = display_engine_data_map s"
  "dc_next_event_id (display_controller_call c0 s) = dc_next_event_id s"
  "import_mode (display_controller_call c0 s) = import_mode s"
  "dc_import_collection_ok (display_controller_call c0 s) = dc_import_collection_ok s"
  "dc_import_image_ok (display_controller_call c0 s) = dc_import_image_ok s"
  by (simp_all add: display_controller_call_def)












text \<open>
  The sentinel is never an imported image: \<^verbatim>\<open>ImportBufferImage\<close> refuses it, with no effect.
\<close>

lemma ImportBufferImage_rejects_sentinel:
  "image_identifier m = kInvalidImageId \<Longrightarrow> ImportBufferImage m u s = Some (False, s)"
  by (simp add: ImportBufferImage_def IsValidBufferImage_def kInvalidImageId_def)








end
